theory Spec2Isabelle
  imports Main "HOL-Library.Sublist"
begin

section \<open>Data model\<close>

text \<open>
  The module \<^verbatim>\<open>tr.aggregate.ds\<close> is one function, \<^verbatim>\<open>main\<close>, that drives the temporal
  library (\<^verbatim>\<open>grass.temporal\<close>) and the temporal database. The database is a map from
  (dataset kind, qualified id) to the stored space time dataset; every call of \<^verbatim>\<open>main\<close>
  into the library is recorded, in program order, in a trace.
\<close>

type_synonym time = int

text \<open>The values of the option \<^verbatim>\<open>type\<close>: strds, str3ds, stvds.\<close>

datatype kind = Strds | Str3ds | Stvds

text \<open>The values of the multiple option \<^verbatim>\<open>sampling\<close>: start, during, overlap, contain, equal.\<close>

datatype relation = Start | During | Overlap | Contain | Equal

text \<open>A registered map, also a row of \<^verbatim>\<open>get_registered_maps("id,start_time,end_time", ...)\<close>.\<close>

record map_entry =
  map_id :: string
  start_time :: time
  end_time :: "time option"

text \<open>
  A space time dataset as stored: the four initial values, the map time of its absolute
  and of its relative time object (\<^verbatim>\<open>None\<close> when unset), its registered maps and its
  temporal extent.
\<close>

record stds =
  temporal_type :: string
  semantic_type :: string
  title :: string
  description :: string
  absolute_map_time :: "string option"
  relative_map_time :: "string option"
  registered_maps :: "map_entry list"
  extent :: "(time \<times> time) option"

type_synonym catalog = "kind \<times> string \<rightharpoonup> stds"

text \<open>What \<^verbatim>\<open>r.series\<close> makes of a list of input maps and a method.\<close>

datatype raster_result = ComputeFailed | NullRaster | Raster

datatype event =
    CreateTemporalDatabase
  | Connect
  | Close
  | IsInDb kind string
  | Select kind string
  | Delete kind string
  | Insert kind string stds
  | GetRegisteredMaps kind string
  | Iteration nat time "time option"
  | CollectMapNames kind string time "time option" "relation list"
  | AggregateRasterMaps kind string "string list" string time "time option" nat string bool
  | UpdateFromRegisteredMaps kind string

record state =
  catalog :: catalog
  trace :: "event list"

text \<open>
  One constructor for each place where the run ends in \<^verbatim>\<open>grass.fatal\<close>, with the
  message of the call; the last two are raised inside the library.
\<close>

datatype error =
    NotFoundError string
  | TemporalTypeMismatchError string
  | IntervalRequiredError string
  | AlreadyExistsError string
  | EmptyDatasetError string
  | AggregationComputeError
  | EmptyAggregationError

text \<open>What a Python call returns: \<^verbatim>\<open>main\<close> has no \<^verbatim>\<open>return\<close> statement.\<close>

datatype pyval = PyNone | PyInt nat

record options =
  opt_input :: string
  opt_output :: string
  opt_sample :: string
  opt_base :: string
  flag_n :: bool
  opt_method :: string
  opt_type :: kind
  opt_sampling :: "relation list"

text \<open>
  The environment of a run: the current mapset (\<^verbatim>\<open>grass.gisenv()["MAPSET"]\<close>), the
  overwrite flag (\<^verbatim>\<open>grass.overwrite()\<close>) and the raster computation, which is not part
  of this program.
\<close>

record env =
  MAPSET :: string
  overwrite :: bool
  r_series :: "string list \<Rightarrow> string \<Rightarrow> raster_result"

section \<open>The temporal library\<close>

definition record_call :: "event \<Rightarrow> state \<Rightarrow> state" where
  "record_call e st = st\<lparr>trace := trace st @ [e]\<rparr>"

definition create_temporal_database :: "state \<Rightarrow> state" where
  "create_temporal_database st = record_call CreateTemporalDatabase st"

definition dbif_connect :: "state \<Rightarrow> state" where
  "dbif_connect st = record_call Connect st"

definition dbif_close :: "state \<Rightarrow> state" where
  "dbif_close st = record_call Close st"

definition fatal :: "error \<Rightarrow> state \<Rightarrow> (error + 'a) \<times> state" where
  "fatal err st = (Inl err, st)"

definition is_in_db :: "kind \<Rightarrow> string \<Rightarrow> state \<Rightarrow> bool \<times> state" where
  "is_in_db k i st = (catalog st (k, i) \<noteq> None, record_call (IsInDb k i) st)"

text \<open>\<^verbatim>\<open>select\<close> is only called on a dataset that \<^verbatim>\<open>is_in_db\<close> has just found.\<close>

definition select :: "kind \<Rightarrow> string \<Rightarrow> state \<Rightarrow> stds \<times> state" where
  "select k i st = (the (catalog st (k, i)), record_call (Select k i) st)"

definition delete_stds :: "kind \<Rightarrow> string \<Rightarrow> state \<Rightarrow> state" where
  "delete_stds k i st = record_call (Delete k i) (st\<lparr>catalog := (catalog st)((k, i) := None)\<rparr>)"

definition insert_stds :: "kind \<Rightarrow> string \<Rightarrow> stds \<Rightarrow> state \<Rightarrow> state" where
  "insert_stds k i ds st = record_call (Insert k i ds) (st\<lparr>catalog := (catalog st)((k, i) \<mapsto> ds)\<rparr>)"

text \<open>A dataset object before any value is set or loaded.\<close>

definition new_stds :: stds where
  "new_stds = \<lparr>temporal_type = [], semantic_type = [], title = [], description = [],
     absolute_map_time = None, relative_map_time = None, registered_maps = [], extent = None\<rparr>"

definition get_initial_values :: "stds \<Rightarrow> string \<times> string \<times> string \<times> string" where
  "get_initial_values ds = (temporal_type ds, semantic_type ds, title ds, description ds)"

definition set_initial_values :: "string \<Rightarrow> string \<Rightarrow> string \<Rightarrow> string \<Rightarrow> stds \<Rightarrow> stds" where
  "set_initial_values tt sem ti de ds =
     ds\<lparr>temporal_type := tt, semantic_type := sem, title := ti, description := de\<rparr>"

text \<open>
  Modelled from the spec: \<^verbatim>\<open>get_registered_maps\<close> with order \<^verbatim>\<open>start_time\<close> is the
  catalog's \<^verbatim>\<open>listMembers(seriesId, orderBy)\<close>, missing from the sources. The members come
  in ascending start time, ties in the catalog's own order (a stable sort); a dataset
  that is not stored has no members.
\<close>

definition get_registered_maps :: "kind \<Rightarrow> string \<Rightarrow> state \<Rightarrow> map_entry list \<times> state" where
  "get_registered_maps k i st =
     ((case catalog st (k, i) of
         None \<Rightarrow> []
       | Some ds \<Rightarrow> sort_key start_time (registered_maps ds)),
      record_call (GetRegisteredMaps k i) st)"

text \<open>
  Modelled from the spec: the relations of the Temporal Relation Matcher (section 4.3),
  missing from the sources. \<open>[a,b)\<close> is the span of the source map, \<open>b\<close> absent for an
  instantaneous map, and \<open>[s,e)\<close> the interval.
\<close>

fun holds :: "relation \<Rightarrow> map_entry \<Rightarrow> time \<times> time \<Rightarrow> bool" where
  "holds Equal m (s, e) = (start_time m = s \<and> end_time m = Some e)"
| "holds Start m (s, e) = (start_time m = s)"
| "holds During m (s, e) =
     (start_time m \<ge> s \<and> (case end_time m of None \<Rightarrow> False | Some b \<Rightarrow> b \<le> e))"
| "holds Overlap m (s, e) =
     (start_time m < e \<and> (case end_time m of None \<Rightarrow> True | Some b \<Rightarrow> b > s))"
| "holds Contain m (s, e) =
     (start_time m \<le> s \<and> (case end_time m of None \<Rightarrow> False | Some b \<Rightarrow> b \<ge> e))"

text \<open>
  Modelled from the spec: \<^verbatim>\<open>match(sourceSeries, interval, relationSet)\<close> of section 4.3,
  missing from the sources. A source map is included if it satisfies any selected
  relation; the identifiers are deduplicated and ordered by ascending start time.
\<close>

definition match :: "map_entry list \<Rightarrow> time \<times> time \<Rightarrow> relation list \<Rightarrow> string list" where
  "match ms iv rels =
     remdups (map map_id (sort_key start_time
       (filter (\<lambda>m. list_ex (\<lambda>r. holds r m iv) rels) ms)))"

text \<open>
  Modelled from the spec: \<^verbatim>\<open>tgis.collect_map_names(sp, dbif, start, end, sampling)\<close>,
  missing from the sources, is the matcher run on the maps now registered in the
  dataset. The spec gives the relations for an interval with both bounds only; for a row
  without end time the model returns no name.
\<close>

definition collect_map_names ::
  "kind \<Rightarrow> string \<Rightarrow> time \<Rightarrow> time option \<Rightarrow> relation list \<Rightarrow> state \<Rightarrow> string list \<times> state" where
  "collect_map_names k i start endt sampling st =
     ((case (catalog st (k, i), endt) of
         (Some ds, Some e) \<Rightarrow> match (registered_maps ds) (start, e) sampling
       | _ \<Rightarrow> []),
      record_call (CollectMapNames k i start endt sampling) st)"

definition digit_char :: "nat \<Rightarrow> char" where
  "digit_char d = ''0123456789'' ! d"

function string_of_nat :: "nat \<Rightarrow> string" where
  "string_of_nat n =
     (if n < 10 then [digit_char n] else string_of_nat (n div 10) @ [digit_char (n mod 10)])"
  by pat_completeness auto
termination
  by (relation "measure id") auto

declare string_of_nat.simps [simp del]

definition register_map :: "kind \<Rightarrow> string \<Rightarrow> map_entry \<Rightarrow> state \<Rightarrow> state" where
  "register_map k i m st =
     (case catalog st (k, i) of
        None \<Rightarrow> st
      | Some ds \<Rightarrow>
          st\<lparr>catalog := (catalog st)((k, i) \<mapsto> ds\<lparr>registered_maps := registered_maps ds @ [m]\<rparr>)\<rparr>)"

text \<open>
  Modelled from the spec: \<^verbatim>\<open>tgis.aggregate_raster_maps\<close>, missing from the sources, is
  steps c and d of the Aggregation Scheduler (section 4.4). The result is named
  \<open>base_i\<close>; a failure of the computation is fatal; a result that is entirely no-data
  is registered only with the register-null flag; otherwise the new map is registered
  in the output dataset with the start and end of the interval.
\<close>

definition aggregate_raster_maps ::
  "env \<Rightarrow> kind \<Rightarrow> string \<Rightarrow> string \<Rightarrow> string list \<Rightarrow> string \<Rightarrow> time \<Rightarrow> time option \<Rightarrow> nat
     \<Rightarrow> string \<Rightarrow> bool \<Rightarrow> state \<Rightarrow> (error + unit) \<times> state" where
  "aggregate_raster_maps ev k i mapset inputs base start endt count method register_null st0 =
     (let st = record_call
            (AggregateRasterMaps k i inputs base start endt count method register_null) st0;
          output = base @ ''_'' @ string_of_nat count;
          new_map = \<lparr>map_id = output @ ''@'' @ mapset, start_time = start, end_time = endt\<rparr>
      in case r_series ev inputs method of
           ComputeFailed \<Rightarrow> fatal AggregationComputeError st
         | NullRaster \<Rightarrow>
             if register_null then (Inr (), register_map k i new_map st) else (Inr (), st)
         | Raster \<Rightarrow> (Inr (), register_map k i new_map st))"

fun map_end :: "map_entry \<Rightarrow> time" where
  "map_end m = (case end_time m of None \<Rightarrow> start_time m | Some e \<Rightarrow> e)"

text \<open>
  Modelled from the spec: \<^verbatim>\<open>update_from_registered_maps\<close>, missing from the sources, is
  \<^verbatim>\<open>finalize\<close> of section 4.1, reduced to the temporal extent: it is recomputed from the
  members, and a dataset without members fails the computation
  (\<^verbatim>\<open>EmptyAggregationError\<close>).
\<close>

definition update_from_registered_maps :: "kind \<Rightarrow> string \<Rightarrow> state \<Rightarrow> (error + unit) \<times> state" where
  "update_from_registered_maps k i st0 =
     (let st = record_call (UpdateFromRegisteredMaps k i) st0
      in case catalog st (k, i) of
           None \<Rightarrow> fatal EmptyAggregationError st
         | Some ds \<Rightarrow>
             (case registered_maps ds of
                [] \<Rightarrow> fatal EmptyAggregationError st
              | m # ms \<Rightarrow>
                  (Inr (), st\<lparr>catalog := (catalog st)((k, i) \<mapsto>
                     ds\<lparr>extent := Some (fold min (map start_time ms) (start_time m),
                                         fold max (map map_end ms) (map_end m))\<rparr>)\<rparr>)))"

section \<open>The program\<close>

text \<open>
  The qualified id of a dataset name (lines 115 to 118, 128 to 131 and 155 to 158):
  \<^verbatim>\<open>name.find("@") >= 0\<close> holds when the name contains the character.
\<close>

definition qualified_id :: "string \<Rightarrow> string \<Rightarrow> string" where
  "qualified_id name mapset =
     (if CHR ''@'' \<in> set name then name else name @ ''@'' @ mapset)"

text \<open>
  The loop of \<^verbatim>\<open>main\<close> over the rows of the sampler (lines 180 to 189): \<open>sp_id\<close> is the
  id of the input dataset, \<open>out_id\<close> the id of the new dataset. It returns the value of
  \<^verbatim>\<open>count\<close> after the last row. \<open>Iteration\<close> records the values of \<^verbatim>\<open>count\<close>,
  \<^verbatim>\<open>start\<close> and \<^verbatim>\<open>end\<close> in one pass.
\<close>

fun for_rows ::
  "env \<Rightarrow> options \<Rightarrow> string \<Rightarrow> string \<Rightarrow> map_entry list \<Rightarrow> nat \<Rightarrow> state
     \<Rightarrow> (error + nat) \<times> state" where
  "for_rows ev opts sp_id out_id [] count dbif = (Inr count, dbif)"
| "for_rows ev opts sp_id out_id (row # rows) count0 dbif0 =
     (let count = count0 + 1;
          start = start_time row;
          endt = end_time row;
          dbif1 = record_call (Iteration count start endt) dbif0;
          (input_map_names, dbif2) =
             collect_map_names Strds sp_id start endt (opt_sampling opts) dbif1
      in if input_map_names \<noteq> [] then
           (case aggregate_raster_maps ev Strds out_id (MAPSET ev) input_map_names
                   (opt_base opts) start endt count (opt_method opts) (flag_n opts) dbif2 of
              (Inl err, dbif3) \<Rightarrow> (Inl err, dbif3)
            | (Inr u, dbif3) \<Rightarrow> for_rows ev opts sp_id out_id rows count dbif3)
         else for_rows ev opts sp_id out_id rows count dbif2)"

text \<open>
  \<^verbatim>\<open>main\<close>, lines 95 to 195, on the catalog the temporal database holds at the start.
  Each \<^verbatim>\<open>dbif.close()\<close> followed by \<^verbatim>\<open>grass.fatal\<close> ends the run with the error and
  the state reached. The nested test of lines 162 to 168 is written in sequence: a stored
  output without overwrite ends the run, a stored output with overwrite is deleted. The
  values of \<^verbatim>\<open>sp\<close> are those loaded by \<^verbatim>\<open>select\<close> at line 126.
\<close>

definition main :: "options \<Rightarrow> env \<Rightarrow> catalog \<Rightarrow> (error + pyval) \<times> state" where
  "main opts ev cat =
     (let inp = opt_input opts;
          output = opt_output opts;
          sampler = opt_sample opts;
          dbif0 = dbif_connect (create_temporal_database \<lparr>catalog = cat, trace = []\<rparr>);
          mapset = MAPSET ev;
          sp_id = qualified_id inp mapset;
          (sp_in_db, dbif1) = is_in_db Strds sp_id dbif0
      in if \<not> sp_in_db then
           fatal (NotFoundError (''Dataset <'' @ sp_id @ ''> not found in temporal database''))
             (dbif_close dbif1)
         else
     (let (sp, dbif2) = select Strds sp_id dbif1;
          sampler_id = qualified_id sampler mapset;
          (sampler_in_db, dbif3) = is_in_db (opt_type opts) sampler_id dbif2
      in if \<not> sampler_in_db then
           fatal (NotFoundError (''Dataset <'' @ sp_id @ ''> not found in temporal database''))
             (dbif_close dbif3)
         else
     (let (sampler_sp, dbif4) = select (opt_type opts) sampler_id dbif3
      in if temporal_type sampler_sp \<noteq> temporal_type sp then
           fatal (TemporalTypeMismatchError
                    ''Input and aggregation dataset must have the same temporal type'')
             (dbif_close dbif4)
         else
     (let map_time = (if temporal_type sampler_sp = ''absolute''
                      then absolute_map_time sampler_sp
                      else relative_map_time sampler_sp)
      in if map_time \<noteq> Some ''interval'' then
           fatal (IntervalRequiredError
                    ''All registered maps of the aggregation dataset must have time intervals'')
             (dbif_close dbif4)
         else
     (let out_id = qualified_id output mapset;
          (new_in_db, dbif5) = is_in_db Strds out_id dbif4
      in if new_in_db \<and> \<not> overwrite ev then
           fatal (AlreadyExistsError (''Space time raster dataset <'' @ out_id
                    @ ''> is already in database, use overwrite flag to overwrite''))
             (dbif_close dbif5)
         else
     (let dbif6 = (if new_in_db then delete_stds Strds out_id dbif5 else dbif5);
          (temporal_type, semantic_type, title, description) = get_initial_values sp;
          new_sp = set_initial_values temporal_type semantic_type title description new_stds;
          dbif7 = insert_stds Strds out_id new_sp dbif6;
          (rows, dbif8) = get_registered_maps (opt_type opts) sampler_id dbif7
      in if rows = [] then
           fatal (EmptyDatasetError (''Aggregation dataset <'' @ sp_id @ ''> is empty''))
             (dbif_close dbif8)
         else
           (case for_rows ev opts sp_id out_id rows 0 dbif8 of
              (Inl err, dbif9) \<Rightarrow> (Inl err, dbif9)
            | (Inr count, dbif9) \<Rightarrow>
                (case update_from_registered_maps Strds out_id dbif9 of
                   (Inl err, dbif10) \<Rightarrow> (Inl err, dbif10)
                 | (Inr u, dbif10) \<Rightarrow> (Inr PyNone, dbif_close dbif10)))))))))"

section \<open>Observations on a run\<close>

text \<open>The passes of the loop recorded in a trace: the values of \<^verbatim>\<open>count\<close>, \<^verbatim>\<open>start\<close>, \<^verbatim>\<open>end\<close>.\<close>

fun iterations :: "event list \<Rightarrow> (nat \<times> time \<times> time option) list" where
  "iterations [] = []"
| "iterations (Iteration c s e # tr) = (c, s, e) # iterations tr"
| "iterations (_ # tr) = iterations tr"

text \<open>The rows of a sampler numbered from \<open>c + 1\<close>, each with its bounds.\<close>

fun numbered :: "nat \<Rightarrow> map_entry list \<Rightarrow> (nat \<times> time \<times> time option) list" where
  "numbered c [] = []"
| "numbered c (row # rows) = (Suc c, start_time row, end_time row) # numbered (Suc c) rows"

text \<open>
  The calls of the aggregation recorded in a trace: the index (\<^verbatim>\<open>count\<close>), the start and
  the end handed to \<^verbatim>\<open>aggregate_raster_maps\<close> at line 189.
\<close>

fun aggregations :: "event list \<Rightarrow> (nat \<times> time \<times> time option) list" where
  "aggregations [] = []"
| "aggregations (AggregateRasterMaps k i ns b s e c m rn # tr) = (c, s, e) # aggregations tr"
| "aggregations (_ # tr) = aggregations tr"

text \<open>
  The calls made inside the loop: a pass, a call of the matcher on the input dataset, a
  call of the aggregation on the output dataset.
\<close>

fun loop_call :: "string \<Rightarrow> string \<Rightarrow> event \<Rightarrow> bool" where
  "loop_call sp_id out_id (Iteration c s e) = True"
| "loop_call sp_id out_id (CollectMapNames k i s e r) = (k = Strds \<and> i = sp_id)"
| "loop_call sp_id out_id (AggregateRasterMaps k i ns b s e c m rn) = (k = Strds \<and> i = out_id)"
| "loop_call sp_id out_id _ = False"

text \<open>The calls that finalize a dataset.\<close>

fun is_finalize :: "event \<Rightarrow> bool" where
  "is_finalize (UpdateFromRegisteredMaps k i) = True"
| "is_finalize _ = False"

text \<open>The output dataset as \<^verbatim>\<open>main\<close> inserts it (lines 161, 170 and 171).\<close>

definition fresh_output :: "stds \<Rightarrow> stds" where
  "fresh_output sp =
     set_initial_values (temporal_type sp) (semantic_type sp) (title sp) (description sp) new_stds"

text \<open>The map time \<^verbatim>\<open>main\<close> reads from the sampler (lines 146 to 149).\<close>

definition sampler_map_time :: "stds \<Rightarrow> string option" where
  "sampler_map_time ssp =
     (if temporal_type ssp = ''absolute'' then absolute_map_time ssp else relative_map_time ssp)"

text \<open>The calls of a run up to the loading of the sampler (lines 108 to 139).\<close>

definition validation_calls :: "options \<Rightarrow> env \<Rightarrow> event list" where
  "validation_calls opts ev =
     [CreateTemporalDatabase, Connect,
      IsInDb Strds (qualified_id (opt_input opts) (MAPSET ev)),
      Select Strds (qualified_id (opt_input opts) (MAPSET ev)),
      IsInDb (opt_type opts) (qualified_id (opt_sample opts) (MAPSET ev)),
      Select (opt_type opts) (qualified_id (opt_sample opts) (MAPSET ev))]"

text \<open>
  The state of a run that has passed every check of lines 122 to 168, after the new
  dataset is inserted and the rows of the sampler are read (line 174).
\<close>

definition prepared :: "options \<Rightarrow> env \<Rightarrow> catalog \<Rightarrow> stds \<Rightarrow> state" where
  "prepared opts ev cat sp =
     \<lparr>catalog = cat((Strds, qualified_id (opt_output opts) (MAPSET ev)) \<mapsto> fresh_output sp),
      trace = validation_calls opts ev
        @ [IsInDb Strds (qualified_id (opt_output opts) (MAPSET ev))]
        @ (if cat (Strds, qualified_id (opt_output opts) (MAPSET ev)) = None then []
           else [Delete Strds (qualified_id (opt_output opts) (MAPSET ev))])
        @ [Insert Strds (qualified_id (opt_output opts) (MAPSET ev)) (fresh_output sp),
           GetRegisteredMaps (opt_type opts) (qualified_id (opt_sample opts) (MAPSET ev))]\<rparr>"

text \<open>
  The rows read at line 174: the new dataset has just been inserted empty, so a sampler
  that is the output dataset itself has no rows.
\<close>

definition sampler_rows :: "options \<Rightarrow> env \<Rightarrow> stds \<Rightarrow> map_entry list" where
  "sampler_rows opts ev ssp =
     (if (opt_type opts, qualified_id (opt_sample opts) (MAPSET ev))
           = (Strds, qualified_id (opt_output opts) (MAPSET ev))
      then [] else sort_key start_time (registered_maps ssp))"

section \<open>Example runs\<close>

text \<open>
  A source with the maps A [0,10), B [10,20), C [20,30) and a sampler with the
  intervals X [0,20) and Y [40,50), registered in the order Y, X.
\<close>

definition ex_source :: stds where
  "ex_source = \<lparr>temporal_type = ''absolute'', semantic_type = ''mean'', title = ''T'',
     description = ''D'', absolute_map_time = Some ''interval'', relative_map_time = None,
     registered_maps =
       [\<lparr>map_id = ''A@m'', start_time = 0, end_time = Some 10\<rparr>,
        \<lparr>map_id = ''B@m'', start_time = 10, end_time = Some 20\<rparr>,
        \<lparr>map_id = ''C@m'', start_time = 20, end_time = Some 30\<rparr>],
     extent = Some (0, 30)\<rparr>"

definition ex_sampler :: stds where
  "ex_sampler = \<lparr>temporal_type = ''absolute'', semantic_type = ''mean'', title = ''S'',
     description = ''E'', absolute_map_time = Some ''interval'', relative_map_time = None,
     registered_maps =
       [\<lparr>map_id = ''Y@m'', start_time = 40, end_time = Some 50\<rparr>,
        \<lparr>map_id = ''X@m'', start_time = 0, end_time = Some 20\<rparr>],
     extent = Some (0, 50)\<rparr>"

definition ex_relative_sampler :: stds where
  "ex_relative_sampler =
     ex_sampler\<lparr>temporal_type := ''relative'', absolute_map_time := None,
       relative_map_time := Some ''interval''\<rparr>"

definition ex_point_sampler :: stds where
  "ex_point_sampler = ex_sampler\<lparr>absolute_map_time := Some ''point''\<rparr>"

definition ex_empty_sampler :: stds where
  "ex_empty_sampler = ex_sampler\<lparr>registered_maps := [], extent := None\<rparr>"

definition ex_old_output :: stds where
  "ex_old_output = \<lparr>temporal_type = ''absolute'', semantic_type = ''mean'', title = ''O'',
     description = ''P'', absolute_map_time = Some ''interval'', relative_map_time = None,
     registered_maps = [\<lparr>map_id = ''old_1@m'', start_time = 0, end_time = Some 5\<rparr>],
     extent = Some (0, 5)\<rparr>"

definition ex_options :: options where
  "ex_options = \<lparr>opt_input = ''in'', opt_output = ''out'', opt_sample = ''smp'',
     opt_base = ''base'', flag_n = False, opt_method = ''sum'', opt_type = Strds,
     opt_sampling = [Overlap]\<rparr>"

definition ex_env :: env where
  "ex_env = \<lparr>MAPSET = ''m'', overwrite = False, r_series = (\<lambda>inputs method. Raster)\<rparr>"

definition ex_env_overwrite :: env where
  "ex_env_overwrite = ex_env\<lparr>overwrite := True\<rparr>"

definition ex_env_failing :: env where
  "ex_env_failing = ex_env\<lparr>r_series := (\<lambda>inputs method. ComputeFailed)\<rparr>"

definition ex_catalog :: catalog where
  "ex_catalog = [(Strds, ''in@m'') \<mapsto> ex_source, (Strds, ''smp@m'') \<mapsto> ex_sampler]"

definition ex_catalog_no_sampler :: catalog where
  "ex_catalog_no_sampler = [(Strds, ''in@m'') \<mapsto> ex_source]"

definition ex_catalog_relative :: catalog where
  "ex_catalog_relative =
     [(Strds, ''in@m'') \<mapsto> ex_source, (Strds, ''smp@m'') \<mapsto> ex_relative_sampler]"

definition ex_catalog_point :: catalog where
  "ex_catalog_point =
     [(Strds, ''in@m'') \<mapsto> ex_source, (Strds, ''smp@m'') \<mapsto> ex_point_sampler]"

definition ex_catalog_empty_sampler :: catalog where
  "ex_catalog_empty_sampler =
     [(Strds, ''in@m'') \<mapsto> ex_source, (Strds, ''smp@m'') \<mapsto> ex_empty_sampler]"

definition ex_catalog_with_output :: catalog where
  "ex_catalog_with_output =
     [(Strds, ''in@m'') \<mapsto> ex_source, (Strds, ''smp@m'') \<mapsto> ex_sampler,
      (Strds, ''out@m'') \<mapsto> ex_old_output]"

definition ex_options_stvds :: options where
  "ex_options_stvds = ex_options\<lparr>opt_type := Stvds\<rparr>"

definition ex_catalog_stvds :: catalog where
  "ex_catalog_stvds = [(Strds, ''in@m'') \<mapsto> ex_source, (Stvds, ''smp@m'') \<mapsto> ex_sampler]"

text \<open>
  A sampler whose first interval in start order, Q [-20,-10), matches no source map, and
  whose second, X [0,20), does.
\<close>

definition ex_sampler_gap :: stds where
  "ex_sampler_gap = ex_sampler\<lparr>registered_maps :=
     [\<lparr>map_id = ''X@m'', start_time = 0, end_time = Some 20\<rparr>,
      \<lparr>map_id = ''Q@m'', start_time = - 20, end_time = Some (- 10)\<rparr>]\<rparr>"

definition ex_catalog_gap :: catalog where
  "ex_catalog_gap = [(Strds, ''in@m'') \<mapsto> ex_source, (Strds, ''smp@m'') \<mapsto> ex_sampler_gap]"

section \<open>The library calls\<close>

lemma trace_record_call [simp]: "trace (record_call e st) = trace st @ [e]"
  by (simp add: record_call_def)

lemma catalog_record_call [simp]: "catalog (record_call e st) = catalog st"
  by (simp add: record_call_def)

lemma snd_collect_map_names [simp]:
  "snd (collect_map_names k i s e r st) = record_call (CollectMapNames k i s e r) st"
  by (simp add: collect_map_names_def)

lemma fst_collect_map_names_record_call [simp]:
  "fst (collect_map_names k i s e r (record_call ev st)) = fst (collect_map_names k i s e r st)"
  by (simp add: collect_map_names_def)

lemma trace_aggregate_raster_maps [simp]:
  "trace (snd (aggregate_raster_maps ev k i ms inputs base s e c meth rn st)) =
     trace st @ [AggregateRasterMaps k i inputs base s e c meth rn]"
  by (simp add: aggregate_raster_maps_def Let_def fatal_def register_map_def
      split: raster_result.splits option.splits)

lemma catalog_aggregate_raster_maps:
  "key \<noteq> (k, i) \<Longrightarrow>
     catalog (snd (aggregate_raster_maps ev k i ms inputs base s e c meth rn st)) key = catalog st key"
  by (simp add: aggregate_raster_maps_def Let_def fatal_def register_map_def
      split: raster_result.splits option.splits)

lemma fst_aggregate_raster_maps:
  "fst (aggregate_raster_maps ev k i ms inputs base s e c meth rn st) =
     (if r_series ev inputs meth = ComputeFailed then Inl AggregationComputeError else Inr ())"
  by (simp add: aggregate_raster_maps_def Let_def fatal_def
      split: raster_result.splits)
lemma trace_update_from_registered_maps [simp]:
  "trace (snd (update_from_registered_maps k i st)) = trace st @ [UpdateFromRegisteredMaps k i]"
  by (simp add: update_from_registered_maps_def Let_def fatal_def
      split: option.splits list.splits)

lemma catalog_update_from_registered_maps:
  "key \<noteq> (k, i) \<Longrightarrow> catalog (snd (update_from_registered_maps k i st)) key = catalog st key"
  by (simp add: update_from_registered_maps_def Let_def fatal_def
      split: option.splits list.splits)

lemma fst_update_from_registered_maps:
  "fst (update_from_registered_maps k i st) = Inl err \<Longrightarrow> err = EmptyAggregationError"
  by (simp add: update_from_registered_maps_def Let_def fatal_def
      split: option.splits list.splits)

section \<open>The loop\<close>

lemma for_rows_Cons:
  "for_rows ev opts sp_id out_id (row # rows) c st =
     (let st2 = record_call (CollectMapNames Strds sp_id (start_time row) (end_time row) (opt_sampling opts))
                  (record_call (Iteration (Suc c) (start_time row) (end_time row)) st);
          names = fst (collect_map_names Strds sp_id (start_time row) (end_time row) (opt_sampling opts) st)
      in if names = [] then for_rows ev opts sp_id out_id rows (Suc c) st2
         else let r = aggregate_raster_maps ev Strds out_id (MAPSET ev) names (opt_base opts)
                        (start_time row) (end_time row) (Suc c) (opt_method opts) (flag_n opts) st2
              in if r_series ev names (opt_method opts) = ComputeFailed
                 then (Inl AggregationComputeError, snd r)
                 else for_rows ev opts sp_id out_id rows (Suc c) (snd r))"
  using fst_aggregate_raster_maps [of ev Strds out_id "MAPSET ev"
      "fst (collect_map_names Strds sp_id (start_time row) (end_time row) (opt_sampling opts) st)"
      "opt_base opts" "start_time row" "end_time row" "Suc c" "opt_method opts" "flag_n opts"]
  by (simp add: Let_def split_def split: prod.splits sum.splits)

lemma for_rows_trace_prefix:
  "prefix (trace st) (trace (snd (for_rows ev opts sp_id out_id rows c st)))"
proof (induction rows arbitrary: c st)
  case Nil
  then show ?case by simp
next
  case (Cons row rows)
  have step: "prefix (trace st) (trace (snd (for_rows ev opts sp_id out_id rows c' st')))"
    if "trace st' = trace st @ zs" for c' st' zs
    using Cons.IH [where c = c' and st = st'] that by (metis append_prefixD)
  show ?case
    unfolding for_rows_Cons [of _ _ _ _ row rows] Let_def
    by (auto intro!: step)
qed

lemma for_rows_count:
  "fst (for_rows ev opts sp_id out_id rows c st) = Inr n \<Longrightarrow> n = c + length rows"
proof (induction rows arbitrary: c st)
  case Nil
  then show ?case by simp
next
  case (Cons row rows)
  from Cons.prems show ?case
    unfolding for_rows_Cons [of _ _ _ _ row rows] Let_def
    by (auto split: if_splits dest: Cons.IH)
qed

lemma for_rows_catalog:
  "key \<noteq> (Strds, out_id) \<Longrightarrow>
     catalog (snd (for_rows ev opts sp_id out_id rows c st)) key = catalog st key"
proof (induction rows arbitrary: c st)
  case Nil
  then show ?case by simp
next
  case (Cons row rows)
  then show ?case
    unfolding for_rows_Cons [of _ _ _ _ row rows] Let_def
    by (simp add: catalog_aggregate_raster_maps)
qed

declare for_rows.simps(2) [simp del]

lemma iterations_append [simp]: "iterations (xs @ ys) = iterations xs @ iterations ys"
  by (induction xs rule: iterations.induct) simp_all

lemma map_fst_numbered: "map fst (numbered c rows) = [Suc c..<Suc c + length rows]"
proof (induction rows arbitrary: c)
  case Nil
  then show ?case by simp
next
  case (Cons row rows)
  then show ?case by (simp del: upt_Suc add: upt_conv_Cons)
qed

lemma map_snd_numbered:
  "map snd (numbered c rows) = map (\<lambda>r. (start_time r, end_time r)) rows"
  by (induction rows arbitrary: c) simp_all

lemma length_numbered [simp]: "length (numbered c rows) = length rows"
  by (induction rows arbitrary: c) simp_all

lemma numbered_take: "take k (numbered c rows) = numbered c (take k rows)"
proof (induction rows arbitrary: c k)
  case Nil
  then show ?case by simp
next
  case (Cons row rows)
  then show ?case by (cases k) simp_all
qed

lemma for_rows_calls:
  "\<exists>zs k. trace (snd (for_rows ev opts sp_id out_id rows c st)) = trace st @ zs \<and>
       list_all (loop_call sp_id out_id) zs \<and>
       iterations zs = take k (numbered c rows) \<and>
       (\<forall>n. fst (for_rows ev opts sp_id out_id rows c st) = Inr n \<longrightarrow> length rows \<le> k)"
proof (induction rows arbitrary: c st)
  case Nil
  then show ?case by simp
next
  case (Cons row rows)
  let ?it = "Iteration (Suc c) (start_time row) (end_time row)"
  let ?cm = "CollectMapNames Strds sp_id (start_time row) (end_time row) (opt_sampling opts)"
  let ?st2 = "record_call ?cm (record_call ?it st)"
  let ?names = "fst (collect_map_names Strds sp_id (start_time row) (end_time row) (opt_sampling opts) st)"
  let ?ag = "AggregateRasterMaps Strds out_id ?names (opt_base opts)
               (start_time row) (end_time row) (Suc c) (opt_method opts) (flag_n opts)"
  let ?r = "aggregate_raster_maps ev Strds out_id (MAPSET ev) ?names (opt_base opts)
              (start_time row) (end_time row) (Suc c) (opt_method opts) (flag_n opts) ?st2"
  consider (skip) "?names = []"
    | (fail) "?names \<noteq> []" "r_series ev ?names (opt_method opts) = ComputeFailed"
    | (ok) "?names \<noteq> []" "r_series ev ?names (opt_method opts) \<noteq> ComputeFailed"
    by blast
  then show ?case
  proof cases
    case skip
    from Cons.IH [where c = "Suc c" and st = ?st2] obtain zs k where
      k: "trace (snd (for_rows ev opts sp_id out_id rows (Suc c) ?st2)) = trace ?st2 @ zs"
        "list_all (loop_call sp_id out_id) zs"
        "iterations zs = take k (numbered (Suc c) rows)"
        "\<forall>n. fst (for_rows ev opts sp_id out_id rows (Suc c) ?st2) = Inr n \<longrightarrow> length rows \<le> k"
      by blast
    show ?thesis
      by (rule exI [of _ "?it # ?cm # zs"], rule exI [of _ "Suc k"])
        (use skip k in \<open>simp add: for_rows_Cons\<close>)
  next
    case fail
    show ?thesis
      by (rule exI [of _ "[?it, ?cm, ?ag]"], rule exI [of _ "Suc 0"])
        (use fail in \<open>simp add: for_rows_Cons Let_def\<close>)
  next
    case ok
    from Cons.IH [where c = "Suc c" and st = "snd ?r"] obtain zs k where
      k: "trace (snd (for_rows ev opts sp_id out_id rows (Suc c) (snd ?r))) = trace (snd ?r) @ zs"
        "list_all (loop_call sp_id out_id) zs"
        "iterations zs = take k (numbered (Suc c) rows)"
        "\<forall>n. fst (for_rows ev opts sp_id out_id rows (Suc c) (snd ?r)) = Inr n \<longrightarrow> length rows \<le> k"
      by blast
    show ?thesis
      by (rule exI [of _ "?it # ?cm # ?ag # zs"], rule exI [of _ "Suc k"])
        (use ok k in \<open>simp add: for_rows_Cons Let_def\<close>)
  qed
qed

lemma for_rows_error:
  "fst (for_rows ev opts sp_id out_id rows c st) = Inl err \<Longrightarrow> err = AggregationComputeError"
proof (induction rows arbitrary: c st)
  case Nil
  then show ?case by simp
next
  case (Cons row rows)
  from Cons.prems show ?case
    unfolding for_rows_Cons [of _ _ _ _ row rows] Let_def
    by (auto split: if_splits dest: Cons.IH)
qed

section \<open>The outcomes of a run\<close>

lemmas lib_defs = is_in_db_def select_def dbif_connect_def create_temporal_database_def
  dbif_close_def fatal_def insert_stds_def delete_stds_def get_registered_maps_def
  get_initial_values_def

lemma main_input_missing:
  assumes "cat (Strds, qualified_id (opt_input opts) (MAPSET ev)) = None"
  shows "main opts ev cat =
    (Inl (NotFoundError (''Dataset <'' @ qualified_id (opt_input opts) (MAPSET ev)
            @ ''> not found in temporal database'')),
     \<lparr>catalog = cat,
      trace = [CreateTemporalDatabase, Connect,
               IsInDb Strds (qualified_id (opt_input opts) (MAPSET ev)), Close]\<rparr>)"
  using assms by (simp add: main_def Let_def lib_defs record_call_def)

lemma main_sampler_missing:
  assumes "cat (Strds, qualified_id (opt_input opts) (MAPSET ev)) = Some sp"
    and "cat (opt_type opts, qualified_id (opt_sample opts) (MAPSET ev)) = None"
  shows "main opts ev cat =
    (Inl (NotFoundError (''Dataset <'' @ qualified_id (opt_input opts) (MAPSET ev)
            @ ''> not found in temporal database'')),
     \<lparr>catalog = cat,
      trace = [CreateTemporalDatabase, Connect,
               IsInDb Strds (qualified_id (opt_input opts) (MAPSET ev)),
               Select Strds (qualified_id (opt_input opts) (MAPSET ev)),
               IsInDb (opt_type opts) (qualified_id (opt_sample opts) (MAPSET ev)), Close]\<rparr>)"
  using assms by (simp add: main_def Let_def lib_defs record_call_def)

lemma main_type_mismatch:
  assumes "cat (Strds, qualified_id (opt_input opts) (MAPSET ev)) = Some sp"
    and "cat (opt_type opts, qualified_id (opt_sample opts) (MAPSET ev)) = Some ssp"
    and "temporal_type ssp \<noteq> temporal_type sp"
  shows "main opts ev cat =
    (Inl (TemporalTypeMismatchError
            ''Input and aggregation dataset must have the same temporal type''),
     \<lparr>catalog = cat, trace = validation_calls opts ev @ [Close]\<rparr>)"
  using assms by (simp add: main_def Let_def lib_defs record_call_def validation_calls_def)

lemma main_no_interval:
  assumes "cat (Strds, qualified_id (opt_input opts) (MAPSET ev)) = Some sp"
    and "cat (opt_type opts, qualified_id (opt_sample opts) (MAPSET ev)) = Some ssp"
    and "temporal_type ssp = temporal_type sp"
    and "sampler_map_time ssp \<noteq> Some ''interval''"
  shows "main opts ev cat =
    (Inl (IntervalRequiredError
            ''All registered maps of the aggregation dataset must have time intervals''),
     \<lparr>catalog = cat, trace = validation_calls opts ev @ [Close]\<rparr>)"
  using assms
  by (simp add: main_def Let_def lib_defs record_call_def validation_calls_def
      sampler_map_time_def)

lemma main_already_exists:
  assumes "cat (Strds, qualified_id (opt_input opts) (MAPSET ev)) = Some sp"
    and "cat (opt_type opts, qualified_id (opt_sample opts) (MAPSET ev)) = Some ssp"
    and "temporal_type ssp = temporal_type sp"
    and "sampler_map_time ssp = Some ''interval''"
    and "cat (Strds, qualified_id (opt_output opts) (MAPSET ev)) = Some old"
    and "\<not> overwrite ev"
  shows "main opts ev cat =
    (Inl (AlreadyExistsError (''Space time raster dataset <''
            @ qualified_id (opt_output opts) (MAPSET ev)
            @ ''> is already in database, use overwrite flag to overwrite'')),
     \<lparr>catalog = cat,
      trace = validation_calls opts ev
        @ [IsInDb Strds (qualified_id (opt_output opts) (MAPSET ev)), Close]\<rparr>)"
  using assms
  by (simp add: main_def Let_def lib_defs record_call_def validation_calls_def
      sampler_map_time_def)

lemma main_prepared:
  assumes "cat (Strds, qualified_id (opt_input opts) (MAPSET ev)) = Some sp"
    and "cat (opt_type opts, qualified_id (opt_sample opts) (MAPSET ev)) = Some ssp"
    and "temporal_type ssp = temporal_type sp"
    and "sampler_map_time ssp = Some ''interval''"
    and "cat (Strds, qualified_id (opt_output opts) (MAPSET ev)) = None \<or> overwrite ev"
  shows "main opts ev cat =
    (let sp_id = qualified_id (opt_input opts) (MAPSET ev);
         out_id = qualified_id (opt_output opts) (MAPSET ev);
         rows = (if (opt_type opts, qualified_id (opt_sample opts) (MAPSET ev)) = (Strds, out_id)
                 then [] else sort_key start_time (registered_maps ssp))
     in if rows = [] then
          (Inl (EmptyDatasetError (''Aggregation dataset <'' @ sp_id @ ''> is empty'')),
           dbif_close (prepared opts ev cat sp))
        else
          (case for_rows ev opts sp_id out_id rows 0 (prepared opts ev cat sp) of
             (Inl err, dbif9) \<Rightarrow> (Inl err, dbif9)
           | (Inr count, dbif9) \<Rightarrow>
               (case update_from_registered_maps Strds out_id dbif9 of
                  (Inl err, dbif10) \<Rightarrow> (Inl err, dbif10)
                | (Inr u, dbif10) \<Rightarrow> (Inr PyNone, dbif_close dbif10))))"
  using assms
  by (auto simp add: main_def Let_def lib_defs record_call_def validation_calls_def
      sampler_map_time_def prepared_def fresh_output_def new_stds_def set_initial_values_def)

lemma iterations_prepared [simp]: "iterations (trace (prepared opts ev cat sp)) = []"
  by (simp add: prepared_def validation_calls_def)

lemma iterations_validation_calls [simp]: "iterations (validation_calls opts ev) = []"
  by (simp add: validation_calls_def)

lemma validation_cases [case_names input_missing sampler_missing type_mismatch no_interval
    already_exists prepared]:
  obtains
    (input_missing) "cat (Strds, qualified_id (opt_input opts) (MAPSET ev)) = None"
  | (sampler_missing) sp where
      "cat (Strds, qualified_id (opt_input opts) (MAPSET ev)) = Some sp"
      "cat (opt_type opts, qualified_id (opt_sample opts) (MAPSET ev)) = None"
  | (type_mismatch) sp ssp where
      "cat (Strds, qualified_id (opt_input opts) (MAPSET ev)) = Some sp"
      "cat (opt_type opts, qualified_id (opt_sample opts) (MAPSET ev)) = Some ssp"
      "temporal_type ssp \<noteq> temporal_type sp"
  | (no_interval) sp ssp where
      "cat (Strds, qualified_id (opt_input opts) (MAPSET ev)) = Some sp"
      "cat (opt_type opts, qualified_id (opt_sample opts) (MAPSET ev)) = Some ssp"
      "temporal_type ssp = temporal_type sp"
      "sampler_map_time ssp \<noteq> Some ''interval''"
  | (already_exists) sp ssp old where
      "cat (Strds, qualified_id (opt_input opts) (MAPSET ev)) = Some sp"
      "cat (opt_type opts, qualified_id (opt_sample opts) (MAPSET ev)) = Some ssp"
      "temporal_type ssp = temporal_type sp"
      "sampler_map_time ssp = Some ''interval''"
      "cat (Strds, qualified_id (opt_output opts) (MAPSET ev)) = Some old"
      "\<not> overwrite ev"
  | (prepared) sp ssp where
      "cat (Strds, qualified_id (opt_input opts) (MAPSET ev)) = Some sp"
      "cat (opt_type opts, qualified_id (opt_sample opts) (MAPSET ev)) = Some ssp"
      "temporal_type ssp = temporal_type sp"
      "sampler_map_time ssp = Some ''interval''"
      "cat (Strds, qualified_id (opt_output opts) (MAPSET ev)) = None \<or> overwrite ev"
  by (cases "cat (Strds, qualified_id (opt_input opts) (MAPSET ev))";
      cases "cat (opt_type opts, qualified_id (opt_sample opts) (MAPSET ev))";
      cases "cat (Strds, qualified_id (opt_output opts) (MAPSET ev))") blast+

lemma main_prepared_cases [consumes 5, case_names empty aborted unfinalized completed]:
  assumes "cat (Strds, qualified_id (opt_input opts) (MAPSET ev)) = Some sp"
    and "cat (opt_type opts, qualified_id (opt_sample opts) (MAPSET ev)) = Some ssp"
    and "temporal_type ssp = temporal_type sp"
    and "sampler_map_time ssp = Some ''interval''"
    and "cat (Strds, qualified_id (opt_output opts) (MAPSET ev)) = None \<or> overwrite ev"
  obtains
    (empty) "sampler_rows opts ev ssp = []"
      "main opts ev cat =
         (Inl (EmptyDatasetError (''Aggregation dataset <''
                 @ qualified_id (opt_input opts) (MAPSET ev) @ ''> is empty'')),
          dbif_close (prepared opts ev cat sp))"
  | (aborted) zs k where "sampler_rows opts ev ssp \<noteq> []"
      "list_all (loop_call (qualified_id (opt_input opts) (MAPSET ev))
                 (qualified_id (opt_output opts) (MAPSET ev))) zs"
      "iterations zs = take k (numbered 0 (sampler_rows opts ev ssp))"
      "fst (main opts ev cat) = Inl AggregationComputeError"
      "trace (snd (main opts ev cat)) = trace (prepared opts ev cat sp) @ zs"
  | (unfinalized) zs where "sampler_rows opts ev ssp \<noteq> []"
      "list_all (loop_call (qualified_id (opt_input opts) (MAPSET ev))
                 (qualified_id (opt_output opts) (MAPSET ev))) zs"
      "iterations zs = numbered 0 (sampler_rows opts ev ssp)"
      "fst (main opts ev cat) = Inl EmptyAggregationError"
      "trace (snd (main opts ev cat)) = trace (prepared opts ev cat sp) @ zs
         @ [UpdateFromRegisteredMaps Strds (qualified_id (opt_output opts) (MAPSET ev))]"
  | (completed) zs where "sampler_rows opts ev ssp \<noteq> []"
      "list_all (loop_call (qualified_id (opt_input opts) (MAPSET ev))
                 (qualified_id (opt_output opts) (MAPSET ev))) zs"
      "iterations zs = numbered 0 (sampler_rows opts ev ssp)"
      "fst (main opts ev cat) = Inr PyNone"
      "trace (snd (main opts ev cat)) = trace (prepared opts ev cat sp) @ zs
         @ [UpdateFromRegisteredMaps Strds (qualified_id (opt_output opts) (MAPSET ev)), Close]"
proof -
  let ?sp_id = "qualified_id (opt_input opts) (MAPSET ev)"
  let ?out_id = "qualified_id (opt_output opts) (MAPSET ev)"
  let ?rows = "sampler_rows opts ev ssp"
  let ?loop = "for_rows ev opts ?sp_id ?out_id ?rows 0 (prepared opts ev cat sp)"
  let ?fin = "update_from_registered_maps Strds ?out_id (snd ?loop)"
  note m = main_prepared [OF assms, unfolded Let_def, folded sampler_rows_def]
  obtain zs k where zs: "trace (snd ?loop) = trace (prepared opts ev cat sp) @ zs"
    "list_all (loop_call ?sp_id ?out_id) zs"
    "iterations zs = take k (numbered 0 ?rows)"
    "\<forall>n. fst ?loop = Inr n \<longrightarrow> length ?rows \<le> k"
    using for_rows_calls [of ev opts ?sp_id ?out_id ?rows 0 "prepared opts ev cat sp"] by blast
  show thesis
  proof (cases "?rows = []")
    case True
    with m show ?thesis by (intro empty) simp_all
  next
    case rows: False
    show ?thesis
    proof (cases "fst ?loop")
      case (Inl err)
      then have "err = AggregationComputeError" by (rule for_rows_error)
      with Inl rows m have "fst (main opts ev cat) = Inl AggregationComputeError"
        "snd (main opts ev cat) = snd ?loop"
        by (simp_all add: split_def)
      with zs rows show ?thesis by (intro aborted [of zs k]) simp_all
    next
      case (Inr n)
      with zs have its: "iterations zs = numbered 0 ?rows" by simp
      show ?thesis
      proof (cases "fst ?fin")
        case (Inl err)
        then have "err = EmptyAggregationError" by (rule fst_update_from_registered_maps)
        with Inl Inr rows m have "fst (main opts ev cat) = Inl EmptyAggregationError"
          "snd (main opts ev cat) = snd ?fin"
          by (simp_all add: split_def)
        with zs its rows show ?thesis by (intro unfinalized [of zs]) simp_all
      next
        case fin: (Inr u)
        with Inr rows m have "fst (main opts ev cat) = Inr PyNone"
          "snd (main opts ev cat) = dbif_close (snd ?fin)"
          by (simp_all add: split_def)
        with zs its rows show ?thesis
          by (intro completed [of zs]) (simp_all add: dbif_close_def)
      qed
    qed
  qed
qed

lemma main_iterations:
  obtains (none) "iterations (trace (snd (main opts ev cat))) = []"
      "\<forall>v. fst (main opts ev cat) \<noteq> Inr v"
  | (some) ssp k where
      "cat (opt_type opts, qualified_id (opt_sample opts) (MAPSET ev)) = Some ssp"
      "iterations (trace (snd (main opts ev cat))) =
         numbered 0 (take k (sort_key start_time (registered_maps ssp)))"
      "\<forall>v. fst (main opts ev cat) = Inr v \<longrightarrow> length (registered_maps ssp) \<le> k"
proof (cases rule: validation_cases [of cat opts ev])
  case input_missing
  then show ?thesis by (intro none) (simp_all add: main_input_missing)
next
  case (sampler_missing sp)
  then show ?thesis by (intro none) (simp_all add: main_sampler_missing)
next
  case (type_mismatch sp ssp)
  then show ?thesis by (intro none) (simp_all add: main_type_mismatch)
next
  case (no_interval sp ssp)
  then show ?thesis by (intro none) (simp_all add: main_no_interval)
next
  case (already_exists sp ssp old)
  then show ?thesis by (intro none) (simp_all add: main_already_exists)
next
  case (prepared sp ssp)
  from prepared show ?thesis
  proof (cases rule: main_prepared_cases)
    case empty
    then show ?thesis by (intro none) (simp_all add: dbif_close_def)
  next
    case (aborted zs k)
    from aborted(1) have "sampler_rows opts ev ssp = sort_key start_time (registered_maps ssp)"
      by (simp add: sampler_rows_def split: if_splits)
    with aborted prepared(2) show ?thesis
      by (intro some [of ssp k]) (simp_all add: numbered_take)
  next
    case (unfinalized zs)
    from unfinalized(1) have "sampler_rows opts ev ssp = sort_key start_time (registered_maps ssp)"
      by (simp add: sampler_rows_def split: if_splits)
    with unfinalized prepared(2) show ?thesis
      by (intro some [of ssp "length (registered_maps ssp)"]) simp_all
  next
    case (completed zs)
    from completed(1) have "sampler_rows opts ev ssp = sort_key start_time (registered_maps ssp)"
      by (simp add: sampler_rows_def split: if_splits)
    with completed prepared(2) show ?thesis
      by (intro some [of ssp "length (registered_maps ssp)"]) simp_all
  qed
qed

lemma loop_call_not_finalize: "loop_call a b e \<Longrightarrow> \<not> is_finalize e"
  by (cases e) simp_all

lemma filter_finalize_loop_calls:
  "list_all (loop_call a b) zs \<Longrightarrow> filter is_finalize zs = []"
  by (induction zs) (auto dest: loop_call_not_finalize)

lemma filter_finalize_prepared [simp]:
  "filter is_finalize (trace (prepared opts ev cat sp)) = []"
  by (simp add: prepared_def validation_calls_def)

lemma filter_finalize_validation_calls [simp]:
  "filter is_finalize (validation_calls opts ev) = []"
  by (simp add: validation_calls_def)

lemma main_prepared_catalog:
  assumes "cat (Strds, qualified_id (opt_input opts) (MAPSET ev)) = Some sp"
    and "cat (opt_type opts, qualified_id (opt_sample opts) (MAPSET ev)) = Some ssp"
    and "temporal_type ssp = temporal_type sp"
    and "sampler_map_time ssp = Some ''interval''"
    and "cat (Strds, qualified_id (opt_output opts) (MAPSET ev)) = None \<or> overwrite ev"
    and "key \<noteq> (Strds, qualified_id (opt_output opts) (MAPSET ev))"
  shows "catalog (snd (main opts ev cat)) key = cat key"
proof -
  let ?sp_id = "qualified_id (opt_input opts) (MAPSET ev)"
  let ?out_id = "qualified_id (opt_output opts) (MAPSET ev)"
  let ?rows = "sampler_rows opts ev ssp"
  let ?loop = "for_rows ev opts ?sp_id ?out_id ?rows 0 (prepared opts ev cat sp)"
  let ?fin = "update_from_registered_maps Strds ?out_id (snd ?loop)"
  note m = main_prepared [OF assms(1-5), unfolded Let_def, folded sampler_rows_def]
  have p: "catalog (prepared opts ev cat sp) key = cat key"
    using assms(6) by (simp add: prepared_def)
  have l: "catalog (snd ?loop) key = cat key"
    using assms(6) p by (simp add: for_rows_catalog)
  have f: "catalog (snd ?fin) key = cat key"
    using assms(6) l by (simp add: catalog_update_from_registered_maps)
  show ?thesis
  proof (cases "?rows = []")
    case True
    with m p show ?thesis by (simp add: dbif_close_def)
  next
    case rows: False
    show ?thesis
    proof (cases "fst ?loop")
      case (Inl err)
      with rows m have "snd (main opts ev cat) = snd ?loop"
        by (simp add: split_def)
      with l show ?thesis by simp
    next
      case (Inr n)
      show ?thesis
      proof (cases "fst ?fin")
        case (Inl err)
        with Inr rows m have "snd (main opts ev cat) = snd ?fin"
          by (simp add: split_def)
        with f show ?thesis by simp
      next
        case fin: (Inr u)
        with Inr rows m have "snd (main opts ev cat) = dbif_close (snd ?fin)"
          by (simp add: split_def)
        with f show ?thesis by (simp add: dbif_close_def)
      qed
    qed
  qed
qed

lemma main_catalog_frame:
  assumes "key \<noteq> (Strds, qualified_id (opt_output opts) (MAPSET ev))"
  shows "catalog (snd (main opts ev cat)) key = cat key"
proof (cases rule: validation_cases [of cat opts ev])
  case input_missing
  then show ?thesis by (simp add: main_input_missing)
next
  case (sampler_missing sp)
  then show ?thesis by (simp add: main_sampler_missing)
next
  case (type_mismatch sp ssp)
  then show ?thesis by (simp add: main_type_mismatch)
next
  case (no_interval sp ssp)
  then show ?thesis by (simp add: main_no_interval)
next
  case (already_exists sp ssp old)
  then show ?thesis by (simp add: main_already_exists)
next
  case (prepared sp ssp)
  then show ?thesis using assms by (rule main_prepared_catalog)
qed

lemma finalize_at_end:
  assumes "filter is_finalize xs = []" and "filter is_finalize ys = []"
  shows "filter is_finalize (xs @ UpdateFromRegisteredMaps k i # ys) =
           [UpdateFromRegisteredMaps k i]"
    and "dropWhile (\<lambda>e. \<not> is_finalize e) (xs @ UpdateFromRegisteredMaps k i # ys) =
           UpdateFromRegisteredMaps k i # ys"
    and "takeWhile (\<lambda>e. \<not> is_finalize e) (xs @ UpdateFromRegisteredMaps k i # ys) = xs"
proof -
  from assms(1) have nf: "\<And>x. x \<in> set xs \<Longrightarrow> \<not> is_finalize x"
    by (simp add: filter_empty_conv)
  from assms show "filter is_finalize (xs @ UpdateFromRegisteredMaps k i # ys) =
      [UpdateFromRegisteredMaps k i]"
    by simp
  from nf show "dropWhile (\<lambda>e. \<not> is_finalize e) (xs @ UpdateFromRegisteredMaps k i # ys) =
      UpdateFromRegisteredMaps k i # ys"
    by simp
  from nf show "takeWhile (\<lambda>e. \<not> is_finalize e) (xs @ UpdateFromRegisteredMaps k i # ys) = xs"
    by simp
qed

lemma main_returns_none: "fst (main opts ev cat) = Inr v \<Longrightarrow> v = PyNone"
proof (cases rule: validation_cases [of cat opts ev])
  case input_missing
  then show "fst (main opts ev cat) = Inr v \<Longrightarrow> v = PyNone" by (simp add: main_input_missing)
next
  case (sampler_missing sp)
  then show "fst (main opts ev cat) = Inr v \<Longrightarrow> v = PyNone" by (simp add: main_sampler_missing)
next
  case (type_mismatch sp ssp)
  then show "fst (main opts ev cat) = Inr v \<Longrightarrow> v = PyNone" by (simp add: main_type_mismatch)
next
  case (no_interval sp ssp)
  then show "fst (main opts ev cat) = Inr v \<Longrightarrow> v = PyNone" by (simp add: main_no_interval)
next
  case (already_exists sp ssp old)
  then show "fst (main opts ev cat) = Inr v \<Longrightarrow> v = PyNone" by (simp add: main_already_exists)
next
  case (prepared sp ssp)
  then show "fst (main opts ev cat) = Inr v \<Longrightarrow> v = PyNone"
    by (cases rule: main_prepared_cases) simp_all
qed

lemma aggregations_append [simp]: "aggregations (xs @ ys) = aggregations xs @ aggregations ys"
  by (induction xs rule: aggregations.induct) simp_all

lemma aggregations_prepared [simp]: "aggregations (trace (prepared opts ev cat sp)) = []"
  by (simp add: prepared_def validation_calls_def)

lemma aggregations_validation_calls [simp]: "aggregations (validation_calls opts ev) = []"
  by (simp add: validation_calls_def)

lemma subseq_snoc: "subseq xs ys \<Longrightarrow> subseq xs (ys @ zs)"
  using list_emb_append_mono [of "(=)" xs ys "[]" zs] by simp

lemma subseq_snoc_same: "subseq xs ys \<Longrightarrow> subseq (xs @ [x]) (ys @ [x])"
  using list_emb_append_mono [of "(=)" xs ys "[x]" "[x]"] by simp

lemma for_rows_aggregations:
  "subseq (aggregations (trace st)) (iterations (trace st)) \<Longrightarrow>
     subseq (aggregations (trace (snd (for_rows ev opts sp_id out_id rows c st))))
       (iterations (trace (snd (for_rows ev opts sp_id out_id rows c st))))"
proof (induction rows arbitrary: c st)
  case Nil
  then show ?case by simp
next
  case (Cons row rows)
  let ?it = "Iteration (Suc c) (start_time row) (end_time row)"
  let ?cm = "CollectMapNames Strds sp_id (start_time row) (end_time row) (opt_sampling opts)"
  let ?st2 = "record_call ?cm (record_call ?it st)"
  let ?names = "fst (collect_map_names Strds sp_id (start_time row) (end_time row) (opt_sampling opts) st)"
  let ?r = "aggregate_raster_maps ev Strds out_id (MAPSET ev) ?names (opt_base opts)
              (start_time row) (end_time row) (Suc c) (opt_method opts) (flag_n opts) ?st2"
  from Cons.prems have skip: "subseq (aggregations (trace ?st2)) (iterations (trace ?st2))"
    by (simp add: subseq_snoc)
  from Cons.prems have agg: "subseq (aggregations (trace (snd ?r))) (iterations (trace (snd ?r)))"
    by (simp add: subseq_snoc_same)
  show ?case
    unfolding for_rows_Cons [of _ _ _ _ row rows] Let_def
    using Cons.IH [OF skip] Cons.IH [OF agg] agg
    by simp
qed

lemma main_aggregations:
  "subseq (aggregations (trace (snd (main opts ev cat))))
     (iterations (trace (snd (main opts ev cat))))"
proof (cases rule: validation_cases [of cat opts ev])
  case input_missing
  then show ?thesis by (simp add: main_input_missing)
next
  case (sampler_missing sp)
  then show ?thesis by (simp add: main_sampler_missing)
next
  case (type_mismatch sp ssp)
  then show ?thesis by (simp add: main_type_mismatch)
next
  case (no_interval sp ssp)
  then show ?thesis by (simp add: main_no_interval)
next
  case (already_exists sp ssp old)
  then show ?thesis by (simp add: main_already_exists)
next
  case (prepared sp ssp)
  let ?sp_id = "qualified_id (opt_input opts) (MAPSET ev)"
  let ?out_id = "qualified_id (opt_output opts) (MAPSET ev)"
  let ?rows = "sampler_rows opts ev ssp"
  let ?loop = "for_rows ev opts ?sp_id ?out_id ?rows 0 (prepared opts ev cat sp)"
  let ?fin = "update_from_registered_maps Strds ?out_id (snd ?loop)"
  note m = main_prepared [OF prepared, unfolded Let_def, folded sampler_rows_def]
  have l: "subseq (aggregations (trace (snd ?loop))) (iterations (trace (snd ?loop)))"
    by (rule for_rows_aggregations) simp
  show ?thesis
  proof (cases "?rows = []")
    case True
    with m show ?thesis by (simp add: dbif_close_def)
  next
    case rows: False
    show ?thesis
    proof (cases "fst ?loop")
      case (Inl err)
      with rows m have "snd (main opts ev cat) = snd ?loop"
        by (simp add: split_def)
      with l show ?thesis by simp
    next
      case (Inr n)
      show ?thesis
      proof (cases "fst ?fin")
        case (Inl err)
        with Inr rows m have "snd (main opts ev cat) = snd ?fin"
          by (simp add: split_def)
        with l show ?thesis by simp
      next
        case fin: (Inr u)
        with Inr rows m have "snd (main opts ev cat) = dbif_close (snd ?fin)"
          by (simp add: split_def)
        with l show ?thesis by (simp add: dbif_close_def)
      qed
    qed
  qed
qed

section \<open>Evaluation of the examples\<close>

lemmas ex_defs = ex_source_def ex_sampler_def ex_relative_sampler_def ex_point_sampler_def
  ex_empty_sampler_def ex_old_output_def ex_options_def ex_env_def ex_env_overwrite_def
  ex_env_failing_def ex_catalog_def ex_catalog_no_sampler_def ex_catalog_relative_def
  ex_catalog_point_def ex_catalog_empty_sampler_def ex_catalog_with_output_def
  ex_options_stvds_def ex_catalog_stvds_def ex_sampler_gap_def ex_catalog_gap_def
  qualified_id_def sampler_map_time_def

lemmas eval_defs = main_def Let_def lib_defs record_call_def set_initial_values_def new_stds_def
  collect_map_names_def match_def aggregate_raster_maps_def register_map_def
  update_from_registered_maps_def for_rows.simps(2)

section \<open>The claims\<close>

text \<open>
  C1. A sampler without registered maps ends the run in \<open>EmptyDatasetError\<close>, and the
  claim asks for this before any change of the output in the catalog. Evaluated on a
  sampler without maps whose checks of lines 141 to 153 pass: the error is raised at
  line 178, after the new dataset has been inserted at line 172, and the catalog holds
  the empty output dataset when the run ends.
\<close>

theorem empty_sampler_reported_after_insert:
  "main ex_options ex_env ex_catalog_empty_sampler =
     (Inl (EmptyDatasetError ''Aggregation dataset <in@m> is empty''),
      \<lparr>catalog = ex_catalog_empty_sampler((Strds, ''out@m'') \<mapsto>
         \<lparr>temporal_type = ''absolute'', semantic_type = ''mean'', title = ''T'',
          description = ''D'', absolute_map_time = None, relative_map_time = None,
          registered_maps = [], extent = None\<rparr>),
       trace =
         [CreateTemporalDatabase, Connect, IsInDb Strds ''in@m'', Select Strds ''in@m'',
          IsInDb Strds ''smp@m'', Select Strds ''smp@m'', IsInDb Strds ''out@m'',
          Insert Strds ''out@m''
            \<lparr>temporal_type = ''absolute'', semantic_type = ''mean'', title = ''T'',
             description = ''D'', absolute_map_time = None, relative_map_time = None,
             registered_maps = [], extent = None\<rparr>,
          GetRegisteredMaps Strds ''smp@m'', Close]\<rparr>)"
  by (simp add: eval_defs ex_defs)

text \<open>
  C2. When a dataset already occupies the output id and every earlier check has passed:
  with overwrite permitted, the run deletes the existing dataset and then inserts a fresh
  one that has no maps and carries the temporal type, semantic type, title and
  description of the source (its first insertion, right after the deletion), and the rest
  of the run, from the reading of the sampler rows at line 174 on, starts in the catalog
  that holds this fresh dataset under the output id and is otherwise unchanged; without
  overwrite, the run ends in \<open>AlreadyExistsError\<close> with the catalog unchanged and
  without any call of the matcher or of the aggregation.
\<close>

theorem prepare_output_overwrite_or_fail:
  assumes "sp_id = qualified_id (opt_input opts) (MAPSET ev)"
    and "sampler_id = qualified_id (opt_sample opts) (MAPSET ev)"
    and "out_id = qualified_id (opt_output opts) (MAPSET ev)"
    and "cat (Strds, sp_id) = Some sp"
    and "cat (opt_type opts, sampler_id) = Some ssp"
    and "temporal_type ssp = temporal_type sp"
    and "sampler_map_time ssp = Some ''interval''"
    and "cat (Strds, out_id) = Some old"
  shows "(overwrite ev \<longrightarrow>
            prefix
              [CreateTemporalDatabase, Connect, IsInDb Strds sp_id, Select Strds sp_id,
               IsInDb (opt_type opts) sampler_id, Select (opt_type opts) sampler_id,
               IsInDb Strds out_id, Delete Strds out_id,
               Insert Strds out_id
                 \<lparr>temporal_type = temporal_type sp, semantic_type = semantic_type sp,
                  title = title sp, description = description sp,
                  absolute_map_time = None, relative_map_time = None,
                  registered_maps = [], extent = None\<rparr>]
              (trace (snd (main opts ev cat)))) \<and>
         (overwrite ev \<longrightarrow>
            main opts ev cat =
              (let dbif7 =
                     \<lparr>catalog = cat((Strds, out_id) \<mapsto>
                        \<lparr>temporal_type = temporal_type sp, semantic_type = semantic_type sp,
                         title = title sp, description = description sp,
                         absolute_map_time = None, relative_map_time = None,
                         registered_maps = [], extent = None\<rparr>),
                      trace =
                        [CreateTemporalDatabase, Connect, IsInDb Strds sp_id,
                         Select Strds sp_id, IsInDb (opt_type opts) sampler_id,
                         Select (opt_type opts) sampler_id, IsInDb Strds out_id,
                         Delete Strds out_id,
                         Insert Strds out_id
                           \<lparr>temporal_type = temporal_type sp,
                            semantic_type = semantic_type sp,
                            title = title sp, description = description sp,
                            absolute_map_time = None, relative_map_time = None,
                            registered_maps = [], extent = None\<rparr>]\<rparr>;
                   (rows, dbif8) = get_registered_maps (opt_type opts) sampler_id dbif7
               in if rows = [] then
                    (Inl (EmptyDatasetError (''Aggregation dataset <'' @ sp_id @ ''> is empty'')),
                     dbif_close dbif8)
                  else
                    (case for_rows ev opts sp_id out_id rows 0 dbif8 of
                       (Inl err, dbif9) \<Rightarrow> (Inl err, dbif9)
                     | (Inr count, dbif9) \<Rightarrow>
                         (case update_from_registered_maps Strds out_id dbif9 of
                            (Inl err, dbif10) \<Rightarrow> (Inl err, dbif10)
                          | (Inr u, dbif10) \<Rightarrow> (Inr PyNone, dbif_close dbif10))))) \<and>
         (\<not> overwrite ev \<longrightarrow>
            main opts ev cat =
              (Inl (AlreadyExistsError (''Space time raster dataset <'' @ out_id
                      @ ''> is already in database, use overwrite flag to overwrite'')),
               \<lparr>catalog = cat,
                trace =
                  [CreateTemporalDatabase, Connect, IsInDb Strds sp_id, Select Strds sp_id,
                   IsInDb (opt_type opts) sampler_id, Select (opt_type opts) sampler_id,
                   IsInDb Strds out_id, Close]\<rparr>))"
proof (intro conjI impI)
  assume "\<not> overwrite ev"
  with assms show "main opts ev cat =
      (Inl (AlreadyExistsError (''Space time raster dataset <'' @ out_id
              @ ''> is already in database, use overwrite flag to overwrite'')),
       \<lparr>catalog = cat,
        trace =
          [CreateTemporalDatabase, Connect, IsInDb Strds sp_id, Select Strds sp_id,
           IsInDb (opt_type opts) sampler_id, Select (opt_type opts) sampler_id,
           IsInDb Strds out_id, Close]\<rparr>)"
    by (simp add: main_already_exists [of cat opts ev sp ssp old] validation_calls_def)
next
  let ?pre = "[CreateTemporalDatabase, Connect, IsInDb Strds sp_id, Select Strds sp_id,
       IsInDb (opt_type opts) sampler_id, Select (opt_type opts) sampler_id,
       IsInDb Strds out_id, Delete Strds out_id,
       Insert Strds out_id
         \<lparr>temporal_type = temporal_type sp, semantic_type = semantic_type sp,
          title = title sp, description = description sp,
          absolute_map_time = None, relative_map_time = None,
          registered_maps = [], extent = None\<rparr>]"
  assume ow: "overwrite ev"
  have pre: "prefix ?pre (trace (prepared opts ev cat sp))"
    using assms
    by (simp add: prepared_def validation_calls_def fresh_output_def set_initial_values_def
        new_stds_def)
  have "cat (Strds, qualified_id (opt_input opts) (MAPSET ev)) = Some sp"
    and "cat (opt_type opts, qualified_id (opt_sample opts) (MAPSET ev)) = Some ssp"
    and "temporal_type ssp = temporal_type sp"
    and "sampler_map_time ssp = Some ''interval''"
    and "cat (Strds, qualified_id (opt_output opts) (MAPSET ev)) = None \<or> overwrite ev"
    using assms ow by simp_all
  then have "prefix (trace (prepared opts ev cat sp)) (trace (snd (main opts ev cat)))"
    by (cases rule: main_prepared_cases) (simp_all add: dbif_close_def)
  with pre show "prefix ?pre (trace (snd (main opts ev cat)))"
    by (rule prefix_order.trans)
next
  assume ow: "overwrite ev"
  have a: "cat (Strds, qualified_id (opt_input opts) (MAPSET ev)) = Some sp"
    "cat (opt_type opts, qualified_id (opt_sample opts) (MAPSET ev)) = Some ssp"
    "temporal_type ssp = temporal_type sp"
    "sampler_map_time ssp = Some ''interval''"
    "cat (Strds, qualified_id (opt_output opts) (MAPSET ev)) = None \<or> overwrite ev"
    using assms ow by simp_all
  note m = main_prepared [OF a, unfolded Let_def]
  have g: "get_registered_maps (opt_type opts) (qualified_id (opt_sample opts) (MAPSET ev))
      \<lparr>catalog = cat((Strds, qualified_id (opt_output opts) (MAPSET ev)) \<mapsto>
         \<lparr>temporal_type = temporal_type sp, semantic_type = semantic_type sp,
          title = title sp, description = description sp,
          absolute_map_time = None, relative_map_time = None,
          registered_maps = [], extent = None\<rparr>),
       trace =
         [CreateTemporalDatabase, Connect,
          IsInDb Strds (qualified_id (opt_input opts) (MAPSET ev)),
          Select Strds (qualified_id (opt_input opts) (MAPSET ev)),
          IsInDb (opt_type opts) (qualified_id (opt_sample opts) (MAPSET ev)),
          Select (opt_type opts) (qualified_id (opt_sample opts) (MAPSET ev)),
          IsInDb Strds (qualified_id (opt_output opts) (MAPSET ev)),
          Delete Strds (qualified_id (opt_output opts) (MAPSET ev)),
          Insert Strds (qualified_id (opt_output opts) (MAPSET ev))
            \<lparr>temporal_type = temporal_type sp, semantic_type = semantic_type sp,
             title = title sp, description = description sp,
             absolute_map_time = None, relative_map_time = None,
             registered_maps = [], extent = None\<rparr>]\<rparr> =
      (if (opt_type opts, qualified_id (opt_sample opts) (MAPSET ev)) =
            (Strds, qualified_id (opt_output opts) (MAPSET ev))
       then [] else sort_key start_time (registered_maps ssp),
       prepared opts ev cat sp)"
    using a(2) assms(3,8)
    by (auto simp add: get_registered_maps_def prepared_def validation_calls_def
        fresh_output_def set_initial_values_def new_stds_def record_call_def)
  show "main opts ev cat =
      (let dbif7 =
             \<lparr>catalog = cat((Strds, out_id) \<mapsto>
                \<lparr>temporal_type = temporal_type sp, semantic_type = semantic_type sp,
                 title = title sp, description = description sp,
                 absolute_map_time = None, relative_map_time = None,
                 registered_maps = [], extent = None\<rparr>),
              trace =
                [CreateTemporalDatabase, Connect, IsInDb Strds sp_id,
                 Select Strds sp_id, IsInDb (opt_type opts) sampler_id,
                 Select (opt_type opts) sampler_id, IsInDb Strds out_id,
                 Delete Strds out_id,
                 Insert Strds out_id
                   \<lparr>temporal_type = temporal_type sp,
                    semantic_type = semantic_type sp,
                    title = title sp, description = description sp,
                    absolute_map_time = None, relative_map_time = None,
                    registered_maps = [], extent = None\<rparr>]\<rparr>;
           (rows, dbif8) = get_registered_maps (opt_type opts) sampler_id dbif7
       in if rows = [] then
            (Inl (EmptyDatasetError (''Aggregation dataset <'' @ sp_id @ ''> is empty'')),
             dbif_close dbif8)
          else
            (case for_rows ev opts sp_id out_id rows 0 dbif8 of
               (Inl err, dbif9) \<Rightarrow> (Inl err, dbif9)
             | (Inr count, dbif9) \<Rightarrow>
                 (case update_from_registered_maps Strds out_id dbif9 of
                    (Inl err, dbif10) \<Rightarrow> (Inl err, dbif10)
                  | (Inr u, dbif10) \<Rightarrow> (Inr PyNone, dbif_close dbif10))))"
    unfolding assms(1-3) Let_def g prod.case m ..
qed

theorem prepare_output_overwrite_or_fail_witness:
  "ex_catalog_with_output (Strds, ''out@m'') = Some ex_old_output \<and>
   overwrite ex_env_overwrite \<and>
   prefix
     [CreateTemporalDatabase, Connect, IsInDb Strds ''in@m'', Select Strds ''in@m'',
      IsInDb Strds ''smp@m'', Select Strds ''smp@m'', IsInDb Strds ''out@m'',
      Delete Strds ''out@m'',
      Insert Strds ''out@m''
        \<lparr>temporal_type = ''absolute'', semantic_type = ''mean'', title = ''T'',
         description = ''D'', absolute_map_time = None, relative_map_time = None,
         registered_maps = [], extent = None\<rparr>]
     (trace (snd (main ex_options ex_env_overwrite ex_catalog_with_output))) \<and>
   catalog (snd (main ex_options ex_env_overwrite ex_catalog_with_output)) (Strds, ''out@m'') =
     Some \<lparr>temporal_type = ''absolute'', semantic_type = ''mean'', title = ''T'',
       description = ''D'', absolute_map_time = None, relative_map_time = None,
       registered_maps = [\<lparr>map_id = ''base_1@m'', start_time = 0, end_time = Some 20\<rparr>],
       extent = Some (0, 20)\<rparr> \<and>
   \<not> overwrite ex_env \<and>
   main ex_options ex_env ex_catalog_with_output =
     (Inl (AlreadyExistsError
        ''Space time raster dataset <out@m> is already in database, use overwrite flag to overwrite''),
      \<lparr>catalog = ex_catalog_with_output,
       trace =
         [CreateTemporalDatabase, Connect, IsInDb Strds ''in@m'', Select Strds ''in@m'',
          IsInDb Strds ''smp@m'', Select Strds ''smp@m'', IsInDb Strds ''out@m'',
          Close]\<rparr>)"
proof -
  note ow = prepare_output_overwrite_or_fail [of "''in@m''" ex_options ex_env_overwrite
      "''smp@m''" "''out@m''" ex_catalog_with_output ex_source ex_sampler ex_old_output]
  note no = prepare_output_overwrite_or_fail [of "''in@m''" ex_options ex_env
      "''smp@m''" "''out@m''" ex_catalog_with_output ex_source ex_sampler ex_old_output]
  have hyps: "''in@m'' = qualified_id (opt_input ex_options) (MAPSET ex_env_overwrite)"
    "''smp@m'' = qualified_id (opt_sample ex_options) (MAPSET ex_env_overwrite)"
    "''out@m'' = qualified_id (opt_output ex_options) (MAPSET ex_env_overwrite)"
    "ex_catalog_with_output (Strds, ''in@m'') = Some ex_source"
    "ex_catalog_with_output (opt_type ex_options, ''smp@m'') = Some ex_sampler"
    "temporal_type ex_sampler = temporal_type ex_source"
    "sampler_map_time ex_sampler = Some ''interval''"
    "ex_catalog_with_output (Strds, ''out@m'') = Some ex_old_output"
    "overwrite ex_env_overwrite"
    by (simp_all add: ex_defs)
  have final: "catalog (snd (main ex_options ex_env_overwrite ex_catalog_with_output))
        (Strds, ''out@m'') =
     Some \<lparr>temporal_type = ''absolute'', semantic_type = ''mean'', title = ''T'',
       description = ''D'', absolute_map_time = None, relative_map_time = None,
       registered_maps = [\<lparr>map_id = ''base_1@m'', start_time = 0, end_time = Some 20\<rparr>],
       extent = Some (0, 20)\<rparr>"
    using ow [OF hyps(1-8), THEN conjunct2, THEN conjunct1, THEN mp, OF hyps(9)]
    by (simp add: Let_def get_registered_maps_def record_call_def dbif_close_def
        collect_map_names_def match_def aggregate_raster_maps_def register_map_def
        update_from_registered_maps_def for_rows.simps(2) string_of_nat.simps digit_char_def
        ex_defs)
  have pre: "prefix
     [CreateTemporalDatabase, Connect, IsInDb Strds ''in@m'', Select Strds ''in@m'',
      IsInDb Strds ''smp@m'', Select Strds ''smp@m'', IsInDb Strds ''out@m'',
      Delete Strds ''out@m'',
      Insert Strds ''out@m''
        \<lparr>temporal_type = ''absolute'', semantic_type = ''mean'', title = ''T'',
         description = ''D'', absolute_map_time = None, relative_map_time = None,
         registered_maps = [], extent = None\<rparr>]
     (trace (snd (main ex_options ex_env_overwrite ex_catalog_with_output)))"
    using ow [OF hyps(1-8), THEN conjunct1, THEN mp, OF hyps(9)] by (simp add: ex_defs)
  from pre final no show ?thesis
    by (simp add: ex_defs)
qed

text \<open>
  C3. With the input and the sampler both stored: the run ends in
  \<open>TemporalTypeMismatchError\<close> when their temporal types differ, and in
  \<open>IntervalRequiredError\<close> when the types agree and the map time of the sampler is not
  \<open>interval\<close>; in both cases the catalog is unchanged and the calls made are the reads
  of the two datasets and the closing of the connection: no output dataset is created.
\<close>

theorem validate_compatibility_before_output:
  assumes "sp_id = qualified_id (opt_input opts) (MAPSET ev)"
    and "sampler_id = qualified_id (opt_sample opts) (MAPSET ev)"
    and "cat (Strds, sp_id) = Some sp"
    and "cat (opt_type opts, sampler_id) = Some ssp"
  shows "(temporal_type ssp \<noteq> temporal_type sp \<longrightarrow>
            fst (main opts ev cat) = Inl (TemporalTypeMismatchError
              ''Input and aggregation dataset must have the same temporal type'')) \<and>
         (temporal_type ssp = temporal_type sp \<and> sampler_map_time ssp \<noteq> Some ''interval'' \<longrightarrow>
            fst (main opts ev cat) = Inl (IntervalRequiredError
              ''All registered maps of the aggregation dataset must have time intervals'')) \<and>
         (temporal_type ssp \<noteq> temporal_type sp \<or> sampler_map_time ssp \<noteq> Some ''interval'' \<longrightarrow>
            snd (main opts ev cat) =
              \<lparr>catalog = cat,
               trace =
                 [CreateTemporalDatabase, Connect, IsInDb Strds sp_id, Select Strds sp_id,
                  IsInDb (opt_type opts) sampler_id, Select (opt_type opts) sampler_id,
                  Close]\<rparr>)"
  using main_type_mismatch [of cat opts ev sp ssp] main_no_interval [of cat opts ev sp ssp] assms
  by (cases "temporal_type ssp = temporal_type sp") (auto simp add: validation_calls_def)

theorem validate_compatibility_before_output_witness:
  "temporal_type ex_relative_sampler \<noteq> temporal_type ex_source \<and>
   main ex_options ex_env ex_catalog_relative =
     (Inl (TemporalTypeMismatchError
        ''Input and aggregation dataset must have the same temporal type''),
      \<lparr>catalog = ex_catalog_relative,
       trace =
         [CreateTemporalDatabase, Connect, IsInDb Strds ''in@m'', Select Strds ''in@m'',
          IsInDb Strds ''smp@m'', Select Strds ''smp@m'', Close]\<rparr>) \<and>
   temporal_type ex_point_sampler = temporal_type ex_source \<and>
   sampler_map_time ex_point_sampler \<noteq> Some ''interval'' \<and>
   main ex_options ex_env ex_catalog_point =
     (Inl (IntervalRequiredError
        ''All registered maps of the aggregation dataset must have time intervals''),
      \<lparr>catalog = ex_catalog_point,
       trace =
         [CreateTemporalDatabase, Connect, IsInDb Strds ''in@m'', Select Strds ''in@m'',
          IsInDb Strds ''smp@m'', Select Strds ''smp@m'', Close]\<rparr>)"
  using validate_compatibility_before_output [of "''in@m''" ex_options ex_env "''smp@m''"
      ex_catalog_relative ex_source ex_relative_sampler]
    validate_compatibility_before_output [of "''in@m''" ex_options ex_env "''smp@m''"
      ex_catalog_point ex_source ex_point_sampler]
  by (simp add: ex_defs prod_eq_iff)

text \<open>
  C4. In every run the passes of the loop carry the indices 1, 2, 3, ... without a gap,
  and their start times ascend. Every call of the aggregation is handed the index and
  the bounds of its pass, so an interval after a skipped one keeps the index of its
  position. The bounds of the passes are an initial part of the sampler's intervals taken
  in ascending start time, and in a run that completes they are all of them: each
  interval of the sampler gets the index of its position, whether or not any source map
  matches it.
\<close>

theorem intervals_enumerated_densely_in_start_order:
  "map fst (iterations (trace (snd (main opts ev cat)))) =
     [1..<Suc (length (iterations (trace (snd (main opts ev cat)))))] \<and>
   sorted (map (\<lambda>(c, s, e). s) (iterations (trace (snd (main opts ev cat))))) \<and>
   subseq (aggregations (trace (snd (main opts ev cat))))
     (iterations (trace (snd (main opts ev cat)))) \<and>
   (\<forall>ssp. cat (opt_type opts, qualified_id (opt_sample opts) (MAPSET ev)) = Some ssp \<longrightarrow>
      prefix (map snd (iterations (trace (snd (main opts ev cat)))))
        (map (\<lambda>row. (start_time row, end_time row))
           (sort_key start_time (registered_maps ssp))) \<and>
      (\<forall>v. fst (main opts ev cat) = Inr v \<longrightarrow>
         map snd (iterations (trace (snd (main opts ev cat)))) =
           map (\<lambda>row. (start_time row, end_time row))
             (sort_key start_time (registered_maps ssp))))"
proof (cases rule: main_iterations [of opts ev cat])
  case none
  then show ?thesis using main_aggregations [of opts ev cat] by simp
next
  case (some ssp k)
  let ?rows = "sort_key start_time (registered_maps ssp)"
  have starts: "map (\<lambda>(c, s, e). s) (numbered c rows) = map start_time rows" for c rows
    by (induction rows arbitrary: c) simp_all
  have "sorted (map start_time ?rows)"
    by (rule sorted_sort_key)
  then have "sorted (take k (map start_time ?rows))"
    by (rule sorted_wrt_take)
  then have srt: "sorted (map start_time (take k ?rows))"
    by (simp add: take_map)
  have pre: "prefix (map (\<lambda>row. (start_time row, end_time row)) (take k ?rows))
      (map (\<lambda>row. (start_time row, end_time row)) ?rows)"
    by (intro map_mono_prefix take_is_prefix)
  from some srt pre show ?thesis
    using map_fst_numbered [of 0 "take k ?rows"] main_aggregations [of opts ev cat]
    by (simp add: starts map_snd_numbered)
qed

theorem intervals_enumerated_densely_in_start_order_witness:
  "ex_catalog_gap (opt_type ex_options, qualified_id (opt_sample ex_options) (MAPSET ex_env)) =
     Some ex_sampler_gap \<and>
   fst (main ex_options ex_env ex_catalog_gap) = Inr PyNone \<and>
   map fst (iterations (trace (snd (main ex_options ex_env ex_catalog_gap)))) = [1, 2] \<and>
   map snd (iterations (trace (snd (main ex_options ex_env ex_catalog_gap)))) =
     [(- 20, Some (- 10)), (0, Some 20)] \<and>
   aggregations (trace (snd (main ex_options ex_env ex_catalog_gap))) = [(2, 0, Some 20)] \<and>
   subseq (aggregations (trace (snd (main ex_options ex_env ex_catalog_gap))))
     (iterations (trace (snd (main ex_options ex_env ex_catalog_gap)))) \<and>
   catalog (snd (main ex_options ex_env ex_catalog_gap)) (Strds, ''out@m'') =
     Some \<lparr>temporal_type = ''absolute'', semantic_type = ''mean'', title = ''T'',
       description = ''D'', absolute_map_time = None, relative_map_time = None,
       registered_maps = [\<lparr>map_id = ''base_2@m'', start_time = 0, end_time = Some 20\<rparr>],
       extent = Some (0, 20)\<rparr>"
proof -
  note th = intervals_enumerated_densely_in_start_order [of ex_options ex_env ex_catalog_gap]
  have sampler: "ex_catalog_gap (opt_type ex_options,
      qualified_id (opt_sample ex_options) (MAPSET ex_env)) = Some ex_sampler_gap"
    by (simp add: ex_defs)
  have run: "fst (main ex_options ex_env ex_catalog_gap) = Inr PyNone"
    by (simp add: eval_defs ex_defs)
  have aggs: "aggregations (trace (snd (main ex_options ex_env ex_catalog_gap))) =
      [(2, 0, Some 20)]"
    by (simp add: eval_defs ex_defs)
  have out: "catalog (snd (main ex_options ex_env ex_catalog_gap)) (Strds, ''out@m'') =
     Some \<lparr>temporal_type = ''absolute'', semantic_type = ''mean'', title = ''T'',
       description = ''D'', absolute_map_time = None, relative_map_time = None,
       registered_maps = [\<lparr>map_id = ''base_2@m'', start_time = 0, end_time = Some 20\<rparr>],
       extent = Some (0, 20)\<rparr>"
    by (simp add: eval_defs ex_defs
        string_of_nat.simps digit_char_def)
  have rows: "map (\<lambda>row. (start_time row, end_time row))
      (sort_key start_time (registered_maps ex_sampler_gap)) =
      [(- 20, Some (- 10)), (0, Some 20)]"
    by (simp add: ex_defs)
  from th sampler run rows
  have bounds: "map snd (iterations (trace (snd (main ex_options ex_env ex_catalog_gap)))) =
      [(- 20, Some (- 10)), (0, Some 20)]"
    by simp
  then have "length (iterations (trace (snd (main ex_options ex_env ex_catalog_gap)))) = 2"
    by (metis length_map length_Cons list.size(3) numeral_2_eq_2)
  with th have idx: "map fst (iterations (trace (snd (main ex_options ex_env
      ex_catalog_gap)))) = [1, 2]"
    by (simp add: upt_conv_Cons del: upt_Suc)
  from th have sub: "subseq (aggregations (trace (snd (main ex_options ex_env ex_catalog_gap))))
     (iterations (trace (snd (main ex_options ex_env ex_catalog_gap))))"
    by blast
  from sampler run idx bounds aggs sub out show ?thesis by blast
qed

text \<open>
  C5. A pass of the loop whose matcher call returns no name adds its two calls to the
  trace (the pass and the matcher call) and goes on with the next row and the next
  index: no aggregation call is made, the catalog is unchanged and no error is raised.
\<close>

theorem empty_match_is_skipped:
  assumes "fst (collect_map_names Strds sp_id (start_time row) (end_time row)
                  (opt_sampling opts) st) = []"
  shows "for_rows ev opts sp_id out_id (row # rows) c st =
           for_rows ev opts sp_id out_id rows (Suc c)
             (st\<lparr>trace := trace st @
                [Iteration (Suc c) (start_time row) (end_time row),
                 CollectMapNames Strds sp_id (start_time row) (end_time row)
                   (opt_sampling opts)]\<rparr>)"
  using assms by (simp add: for_rows_Cons record_call_def)

theorem empty_match_is_skipped_witness:
  "fst (collect_map_names Strds ''in@m''
          (start_time \<lparr>map_id = ''Y@m'', start_time = 40, end_time = Some 50\<rparr>)
          (end_time \<lparr>map_id = ''Y@m'', start_time = 40, end_time = Some 50\<rparr>)
          (opt_sampling ex_options) \<lparr>catalog = ex_catalog, trace = []\<rparr>) = [] \<and>
   for_rows ex_env ex_options ''in@m'' ''out@m''
       [\<lparr>map_id = ''Y@m'', start_time = 40, end_time = Some 50\<rparr>] 0
       \<lparr>catalog = ex_catalog, trace = []\<rparr> =
     (Inr 1, \<lparr>catalog = ex_catalog,
        trace = [Iteration 1 40 (Some 50), CollectMapNames Strds ''in@m'' 40 (Some 50) [Overlap]]\<rparr>)"
proof -
  have empty: "fst (collect_map_names Strds ''in@m''
          (start_time \<lparr>map_id = ''Y@m'', start_time = 40, end_time = Some 50\<rparr>)
          (end_time \<lparr>map_id = ''Y@m'', start_time = 40, end_time = Some 50\<rparr>)
          (opt_sampling ex_options) \<lparr>catalog = ex_catalog, trace = []\<rparr>) = []"
    by (simp add: collect_map_names_def match_def ex_defs)
  from empty_match_is_skipped [OF empty, of ex_env "''out@m''" "[]" 0] empty
  show ?thesis by (simp add: ex_defs)
qed

text \<open>
  C6. A source map with span [10,20) satisfies each of the five relations against the
  interval [10,20), so the matcher returns it under any one of them; and an identifier
  is returned by the matcher exactly when some source map with that identifier satisfies
  some selected relation.
\<close>

theorem matcher_includes_on_any_relation:
  "(\<forall>r. holds r \<lparr>map_id = n, start_time = 10, end_time = Some 20\<rparr> (10, 20)) \<and>
   (\<forall>r. match [\<lparr>map_id = n, start_time = 10, end_time = Some 20\<rparr>] (10, 20) [r] = [n]) \<and>
   (x \<in> set (match ms iv rels) \<longleftrightarrow>
      (\<exists>m \<in> set ms. map_id m = x \<and> (\<exists>r \<in> set rels. holds r m iv)))"
proof (intro conjI allI)
  fix r
  show h: "holds r \<lparr>map_id = n, start_time = 10, end_time = Some 20\<rparr> (10, 20)"
    by (cases r) simp_all
  then show "match [\<lparr>map_id = n, start_time = 10, end_time = Some 20\<rparr>] (10, 20) [r] = [n]"
    by (simp add: match_def)
next
  show "x \<in> set (match ms iv rels) \<longleftrightarrow>
      (\<exists>m \<in> set ms. map_id m = x \<and> (\<exists>r \<in> set rels. holds r m iv))"
    by (auto simp add: match_def list_ex_iff)
qed

theorem matcher_includes_on_any_relation_witness:
  "(\<exists>m \<in> set (registered_maps ex_source). map_id m = ''B@m'' \<and>
      (\<exists>r \<in> set [Equal, Overlap]. holds r m (10, 20))) \<and>
   ''B@m'' \<in> set (match (registered_maps ex_source) (10, 20) [Equal, Overlap]) \<and>
   match [\<lparr>map_id = ''B@m'', start_time = 10, end_time = Some 20\<rparr>] (10, 20) [During] = [''B@m'']"
proof -
  have ex: "\<exists>m \<in> set (registered_maps ex_source). map_id m = ''B@m'' \<and>
      (\<exists>r \<in> set [Equal, Overlap]. holds r m (10, 20))"
    by (simp add: ex_defs)
  with matcher_includes_on_any_relation [of "''B@m''" "''B@m''" "registered_maps ex_source"
      "(10, 20)" "[Equal, Overlap]"]
  show ?thesis by blast
qed

text \<open>
  C7, as stated: a completed run returns the number of intervals processed. On the
  example the run completes after two passes and \<^verbatim>\<open>main\<close> returns \<^verbatim>\<open>None\<close>.
\<close>

theorem count_not_returned_counterexample:
  "fst (main ex_options ex_env ex_catalog) = Inr PyNone \<and>
   iterations (trace (snd (main ex_options ex_env ex_catalog))) =
     [(1, 0, Some 20), (2, 40, Some 50)] \<and>
   fst (main ex_options ex_env ex_catalog) \<noteq> Inr (PyInt 2)"
  by (simp add: eval_defs ex_defs)

text \<open>
  C7, amended: when the loop completes, \<^verbatim>\<open>count\<close> has advanced by the number of rows,
  skipped ones included; a run that completes has made one pass for each registered map
  of the sampler, and \<^verbatim>\<open>main\<close> returns \<^verbatim>\<open>None\<close>: the count is not returned.
\<close>

theorem count_is_number_of_intervals_but_main_returns_none:
  "(fst (for_rows ev opts sp_id out_id rows c st) = Inr n \<longrightarrow> n = c + length rows) \<and>
   (fst (main opts ev cat) = Inr v \<longrightarrow>
      v = PyNone \<and>
      (\<forall>ssp. cat (opt_type opts, qualified_id (opt_sample opts) (MAPSET ev)) = Some ssp \<longrightarrow>
         length (iterations (trace (snd (main opts ev cat)))) = length (registered_maps ssp)))"
proof (intro conjI impI allI)
  assume "fst (for_rows ev opts sp_id out_id rows c st) = Inr n"
  then show "n = c + length rows" by (rule for_rows_count)
next
  assume "fst (main opts ev cat) = Inr v"
  then show "v = PyNone" by (rule main_returns_none)
next
  fix ssp
  assume run: "fst (main opts ev cat) = Inr v"
    and s: "cat (opt_type opts, qualified_id (opt_sample opts) (MAPSET ev)) = Some ssp"
  show "length (iterations (trace (snd (main opts ev cat)))) = length (registered_maps ssp)"
  proof (cases rule: main_iterations [of opts ev cat])
    case none
    with run show ?thesis by simp
  next
    case (some ssp' k)
    with run s show ?thesis by simp
  qed
qed

theorem count_is_number_of_intervals_but_main_returns_none_witness:
  "fst (for_rows ex_env ex_options ''in@m'' ''out@m''
          (sort_key start_time (registered_maps ex_sampler)) 0
          \<lparr>catalog = ex_catalog, trace = []\<rparr>) = Inr 2 \<and>
   fst (main ex_options ex_env ex_catalog) = Inr PyNone \<and>
   ex_catalog (opt_type ex_options, qualified_id (opt_sample ex_options) (MAPSET ex_env)) =
     Some ex_sampler \<and>
   length (iterations (trace (snd (main ex_options ex_env ex_catalog)))) = 2"
proof -
  have loop: "fst (for_rows ex_env ex_options ''in@m'' ''out@m''
          (sort_key start_time (registered_maps ex_sampler)) 0
          \<lparr>catalog = ex_catalog, trace = []\<rparr>) = Inr 2"
    by (simp add: eval_defs ex_defs)
  have run: "fst (main ex_options ex_env ex_catalog) = Inr PyNone"
    by (simp add: eval_defs ex_defs)
  have sampler: "ex_catalog (opt_type ex_options,
      qualified_id (opt_sample ex_options) (MAPSET ex_env)) = Some ex_sampler"
    by (simp add: ex_defs)
  have "length (registered_maps ex_sampler) = 2"
    by (simp add: ex_defs)
  with count_is_number_of_intervals_but_main_returns_none
    [of ex_env ex_options "''in@m''" "''out@m''"
      "sort_key start_time (registered_maps ex_sampler)" 0
      "\<lparr>catalog = ex_catalog, trace = []\<rparr>" 2 ex_catalog PyNone]
    loop run sampler
  show ?thesis by simp
qed

text \<open>
  C8, as stated: every run that reaches the loop finalizes the output once. On the
  example with a failing raster computation the run makes one pass, ends in
  \<open>AggregationComputeError\<close> and never calls \<^verbatim>\<open>update_from_registered_maps\<close>.
\<close>

theorem finalize_skipped_counterexample:
  "iterations (trace (snd (main ex_options ex_env_failing ex_catalog))) = [(1, 0, Some 20)] \<and>
   fst (main ex_options ex_env_failing ex_catalog) = Inl AggregationComputeError \<and>
   filter is_finalize (trace (snd (main ex_options ex_env_failing ex_catalog))) = []"
  by (simp add: eval_defs ex_defs)

text \<open>
  C8, amended: in a run that reaches the loop and is not ended by an aggregation failure,
  \<^verbatim>\<open>update_from_registered_maps\<close> is called exactly once, on the output dataset; every
  pass of the loop comes before that call and only the closing of the connection comes
  after it. In a run ended by an aggregation failure it is not called.
\<close>

theorem finalize_once_after_completed_loop:
  assumes "out_id = qualified_id (opt_output opts) (MAPSET ev)"
    and "iterations (trace (snd (main opts ev cat))) \<noteq> []"
  shows "(fst (main opts ev cat) = Inl AggregationComputeError \<longrightarrow>
            filter is_finalize (trace (snd (main opts ev cat))) = []) \<and>
         (fst (main opts ev cat) \<noteq> Inl AggregationComputeError \<longrightarrow>
            filter is_finalize (trace (snd (main opts ev cat))) =
              [UpdateFromRegisteredMaps Strds out_id] \<and>
            iterations (takeWhile (\<lambda>e. \<not> is_finalize e) (trace (snd (main opts ev cat)))) =
              iterations (trace (snd (main opts ev cat))) \<and>
            set (dropWhile (\<lambda>e. \<not> is_finalize e) (trace (snd (main opts ev cat)))) \<subseteq>
              {UpdateFromRegisteredMaps Strds out_id, Close})"
proof (cases rule: validation_cases [of cat opts ev])
  case input_missing
  with assms(2) show ?thesis by (simp add: main_input_missing)
next
  case (sampler_missing sp)
  with assms(2) show ?thesis by (simp add: main_sampler_missing)
next
  case (type_mismatch sp ssp)
  with assms(2) show ?thesis by (simp add: main_type_mismatch)
next
  case (no_interval sp ssp)
  with assms(2) show ?thesis by (simp add: main_no_interval)
next
  case (already_exists sp ssp old)
  with assms(2) show ?thesis by (simp add: main_already_exists)
next
  case (prepared sp ssp)
  then show ?thesis
  proof (cases rule: main_prepared_cases)
    case empty
    with assms(2) show ?thesis by (simp add: dbif_close_def)
  next
    case (aborted zs k)
    then show ?thesis by (simp add: filter_finalize_loop_calls)
  next
    case (unfinalized zs)
    let ?xs = "trace (prepared opts ev cat sp) @ zs"
    from unfinalized have xs: "filter is_finalize ?xs = []"
      by (simp add: filter_finalize_loop_calls)
    from unfinalized have tr: "trace (snd (main opts ev cat)) =
        ?xs @ UpdateFromRegisteredMaps Strds out_id # []"
      by (simp add: assms(1))
    show ?thesis
      unfolding tr using finalize_at_end [OF xs, of "[]" Strds out_id] unfinalized(4)
      by simp
  next
    case (completed zs)
    let ?xs = "trace (prepared opts ev cat sp) @ zs"
    from completed have xs: "filter is_finalize ?xs = []"
      by (simp add: filter_finalize_loop_calls)
    from completed have tr: "trace (snd (main opts ev cat)) =
        ?xs @ UpdateFromRegisteredMaps Strds out_id # [Close]"
      by (simp add: assms(1))
    show ?thesis
      unfolding tr using finalize_at_end [OF xs, of "[Close]" Strds out_id] completed(4)
      by simp
  qed
qed

theorem finalize_once_after_completed_loop_witness:
  "iterations (trace (snd (main ex_options ex_env ex_catalog))) \<noteq> [] \<and>
   fst (main ex_options ex_env ex_catalog) \<noteq> Inl AggregationComputeError \<and>
   filter is_finalize (trace (snd (main ex_options ex_env ex_catalog))) =
     [UpdateFromRegisteredMaps Strds ''out@m''] \<and>
   set (dropWhile (\<lambda>e. \<not> is_finalize e) (trace (snd (main ex_options ex_env ex_catalog)))) \<subseteq>
     {UpdateFromRegisteredMaps Strds ''out@m'', Close} \<and>
   iterations (trace (snd (main ex_options ex_env_failing ex_catalog))) \<noteq> [] \<and>
   fst (main ex_options ex_env_failing ex_catalog) = Inl AggregationComputeError \<and>
   filter is_finalize (trace (snd (main ex_options ex_env_failing ex_catalog))) = []"
proof -
  have ok: "iterations (trace (snd (main ex_options ex_env ex_catalog))) \<noteq> []"
    "fst (main ex_options ex_env ex_catalog) \<noteq> Inl AggregationComputeError"
    by (simp_all add: eval_defs ex_defs)
  have bad: "iterations (trace (snd (main ex_options ex_env_failing ex_catalog))) \<noteq> []"
    "fst (main ex_options ex_env_failing ex_catalog) = Inl AggregationComputeError"
    by (simp_all add: eval_defs ex_defs)
  have out: "''out@m'' = qualified_id (opt_output ex_options) (MAPSET ex_env)"
    "''out@m'' = qualified_id (opt_output ex_options) (MAPSET ex_env_failing)"
    by (simp_all add: ex_defs)
  from finalize_once_after_completed_loop [OF out(1) ok(1)]
    finalize_once_after_completed_loop [OF out(2) bad(1)] ok bad
  show ?thesis by simp
qed

text \<open>
  C9. Whatever the option \<^verbatim>\<open>type\<close> is, it occurs only in the three reads of the sampler
  (\<^verbatim>\<open>is_in_db\<close>, \<^verbatim>\<open>select\<close>, \<^verbatim>\<open>get_registered_maps\<close>); the input is checked, loaded
  and matched as a space time raster dataset, the output is checked, deleted, inserted,
  filled and finalized as a space time raster dataset, and the catalog changes at the
  raster entry of the output id only. An input that is not stored as a space time
  raster dataset is not found.
\<close>

theorem type_option_selects_sampler_only:
  assumes "sp_id = qualified_id (opt_input opts) (MAPSET ev)"
    and "sampler_id = qualified_id (opt_sample opts) (MAPSET ev)"
    and "out_id = qualified_id (opt_output opts) (MAPSET ev)"
  shows "set (trace (snd (main opts ev cat))) \<subseteq>
           {CreateTemporalDatabase, Connect, Close,
            IsInDb Strds sp_id, Select Strds sp_id,
            IsInDb (opt_type opts) sampler_id, Select (opt_type opts) sampler_id,
            GetRegisteredMaps (opt_type opts) sampler_id,
            IsInDb Strds out_id, Delete Strds out_id, UpdateFromRegisteredMaps Strds out_id}
           \<union> range (Insert Strds out_id) \<union> {e. loop_call sp_id out_id e} \<and>
         (\<forall>key. key \<noteq> (Strds, out_id) \<longrightarrow> catalog (snd (main opts ev cat)) key = cat key) \<and>
         (cat (Strds, sp_id) = None \<longrightarrow>
            fst (main opts ev cat) = Inl (NotFoundError
              (''Dataset <'' @ sp_id @ ''> not found in temporal database'')))"
proof (intro conjI allI impI)
  fix key :: "kind \<times> string"
  assume "key \<noteq> (Strds, out_id)"
  with assms show "catalog (snd (main opts ev cat)) key = cat key"
    by (simp add: main_catalog_frame)
next
  assume "cat (Strds, sp_id) = None"
  with assms show "fst (main opts ev cat) = Inl (NotFoundError
      (''Dataset <'' @ sp_id @ ''> not found in temporal database''))"
    by (simp add: main_input_missing)
next
  let ?A = "{CreateTemporalDatabase, Connect, Close,
            IsInDb Strds sp_id, Select Strds sp_id,
            IsInDb (opt_type opts) sampler_id, Select (opt_type opts) sampler_id,
            GetRegisteredMaps (opt_type opts) sampler_id,
            IsInDb Strds out_id, Delete Strds out_id, UpdateFromRegisteredMaps Strds out_id}
           \<union> range (Insert Strds out_id) \<union> {e. loop_call sp_id out_id e}"
  have v: "set (validation_calls opts ev) \<subseteq> ?A"
    using assms by (simp add: validation_calls_def)
  have p: "set (trace (prepared opts ev cat sp)) \<subseteq> ?A" for sp
    using assms by (simp add: prepared_def validation_calls_def)
  have z: "set zs \<subseteq> ?A"
    if "list_all (loop_call (qualified_id (opt_input opts) (MAPSET ev))
          (qualified_id (opt_output opts) (MAPSET ev))) zs" for zs
    using that assms by (auto simp add: list_all_iff)
  show "set (trace (snd (main opts ev cat))) \<subseteq> ?A"
  proof (cases rule: validation_cases [of cat opts ev])
    case input_missing
    then show ?thesis using assms by (simp add: main_input_missing)
  next
    case (sampler_missing sp)
    then show ?thesis using assms by (simp add: main_sampler_missing)
  next
    case (type_mismatch sp ssp)
    then show ?thesis using v by (simp add: main_type_mismatch)
  next
    case (no_interval sp ssp)
    then show ?thesis using v by (simp add: main_no_interval)
  next
    case (already_exists sp ssp old)
    then show ?thesis using v assms by (simp add: main_already_exists)
  next
    case (prepared sp ssp)
    then show ?thesis
    proof (cases rule: main_prepared_cases)
      case empty
      then show ?thesis using p [of sp] by (simp add: dbif_close_def)
    next
      case (aborted zs k)
      then show ?thesis using p [of sp] z [of zs] by simp
    next
      case (unfinalized zs)
      then show ?thesis using p [of sp] z [of zs] assms by simp
    next
      case (completed zs)
      then show ?thesis using p [of sp] z [of zs] assms by simp
    qed
  qed
qed

theorem type_option_selects_sampler_only_witness:
  "(Stvds, ''out@m'') \<noteq> (Strds, ''out@m'') \<and>
   fst (main ex_options_stvds ex_env ex_catalog_stvds) = Inr PyNone \<and>
   catalog (snd (main ex_options_stvds ex_env ex_catalog_stvds)) (Stvds, ''out@m'') = None \<and>
   catalog (snd (main ex_options_stvds ex_env ex_catalog_stvds)) (Stvds, ''smp@m'') =
     Some ex_sampler \<and>
   Insert Stvds ''out@m'' ex_sampler \<notin> set (trace (snd (main ex_options_stvds ex_env ex_catalog_stvds))) \<and>
   ex_catalog_no_sampler (Strds, ''missing@m'') = None \<and>
   fst (main (ex_options_stvds\<lparr>opt_input := ''missing''\<rparr>) ex_env ex_catalog_no_sampler) =
     Inl (NotFoundError ''Dataset <missing@m> not found in temporal database'')"
proof -
  have run: "fst (main ex_options_stvds ex_env ex_catalog_stvds) = Inr PyNone"
    by (simp add: eval_defs ex_defs)
  have ids: "''in@m'' = qualified_id (opt_input ex_options_stvds) (MAPSET ex_env)"
    "''smp@m'' = qualified_id (opt_sample ex_options_stvds) (MAPSET ex_env)"
    "''out@m'' = qualified_id (opt_output ex_options_stvds) (MAPSET ex_env)"
    by (simp_all add: ex_defs)
  have ids': "''missing@m'' =
      qualified_id (opt_input (ex_options_stvds\<lparr>opt_input := ''missing''\<rparr>)) (MAPSET ex_env)"
    "''smp@m'' =
      qualified_id (opt_sample (ex_options_stvds\<lparr>opt_input := ''missing''\<rparr>)) (MAPSET ex_env)"
    "''out@m'' =
      qualified_id (opt_output (ex_options_stvds\<lparr>opt_input := ''missing''\<rparr>)) (MAPSET ex_env)"
    by (simp_all add: ex_defs)
  note a = type_option_selects_sampler_only [OF ids, of ex_catalog_stvds]
  note b = type_option_selects_sampler_only [OF ids', of ex_catalog_no_sampler]
  from a have frame: "catalog (snd (main ex_options_stvds ex_env ex_catalog_stvds)) key =
      ex_catalog_stvds key" if "key \<noteq> (Strds, ''out@m'')" for key
    using that by blast
  from a have "Insert Stvds ''out@m'' ex_sampler
      \<notin> set (trace (snd (main ex_options_stvds ex_env ex_catalog_stvds)))"
    by (auto simp add: ex_defs)
  moreover from b have "fst (main (ex_options_stvds\<lparr>opt_input := ''missing''\<rparr>) ex_env
      ex_catalog_no_sampler) =
     Inl (NotFoundError ''Dataset <missing@m> not found in temporal database'')"
    by (simp add: ex_defs)
  ultimately show ?thesis
    using run frame [of "(Stvds, ''out@m'')"] frame [of "(Stvds, ''smp@m'')"]
    by (simp add: ex_defs)
qed

text \<open>
  C10. With the input stored: when the sampler is not stored, and when the sampler has
  no registered maps and the run reaches line 176, the message of the fatal error is
  built from the qualified id of the input dataset.
\<close>

theorem sampler_errors_report_input_id:
  assumes "sp_id = qualified_id (opt_input opts) (MAPSET ev)"
    and "sampler_id = qualified_id (opt_sample opts) (MAPSET ev)"
    and "out_id = qualified_id (opt_output opts) (MAPSET ev)"
    and "cat (Strds, sp_id) = Some sp"
  shows "(cat (opt_type opts, sampler_id) = None \<longrightarrow>
            fst (main opts ev cat) = Inl (NotFoundError
              (''Dataset <'' @ sp_id @ ''> not found in temporal database''))) \<and>
         (\<forall>ssp. cat (opt_type opts, sampler_id) = Some ssp \<and>
              temporal_type ssp = temporal_type sp \<and>
              sampler_map_time ssp = Some ''interval'' \<and>
              (cat (Strds, out_id) = None \<or> overwrite ev) \<and>
              registered_maps ssp = [] \<longrightarrow>
            fst (main opts ev cat) = Inl (EmptyDatasetError
              (''Aggregation dataset <'' @ sp_id @ ''> is empty'')))"
proof (intro conjI allI impI)
  assume "cat (opt_type opts, sampler_id) = None"
  with assms show "fst (main opts ev cat) = Inl (NotFoundError
      (''Dataset <'' @ sp_id @ ''> not found in temporal database''))"
    by (simp add: main_sampler_missing [of cat opts ev sp])
next
  fix ssp
  assume h: "cat (opt_type opts, sampler_id) = Some ssp \<and>
      temporal_type ssp = temporal_type sp \<and>
      sampler_map_time ssp = Some ''interval'' \<and>
      (cat (Strds, out_id) = None \<or> overwrite ev) \<and>
      registered_maps ssp = []"
  then have rows: "sampler_rows opts ev ssp = []"
    by (simp add: sampler_rows_def)
  from h assms have "cat (Strds, qualified_id (opt_input opts) (MAPSET ev)) = Some sp"
    and "cat (opt_type opts, qualified_id (opt_sample opts) (MAPSET ev)) = Some ssp"
    and "temporal_type ssp = temporal_type sp"
    and "sampler_map_time ssp = Some ''interval''"
    and "cat (Strds, qualified_id (opt_output opts) (MAPSET ev)) = None \<or> overwrite ev"
    by simp_all
  then show "fst (main opts ev cat) = Inl (EmptyDatasetError
      (''Aggregation dataset <'' @ sp_id @ ''> is empty''))"
    using rows assms(1) by (cases rule: main_prepared_cases) simp_all
qed

theorem sampler_errors_report_input_id_witness:
  "ex_catalog_no_sampler (Strds, ''in@m'') = Some ex_source \<and>
   ex_catalog_no_sampler (opt_type ex_options, ''smp@m'') = None \<and>
   fst (main ex_options ex_env ex_catalog_no_sampler) =
     Inl (NotFoundError ''Dataset <in@m> not found in temporal database'') \<and>
   ex_catalog_empty_sampler (opt_type ex_options, ''smp@m'') = Some ex_empty_sampler \<and>
   registered_maps ex_empty_sampler = [] \<and>
   fst (main ex_options ex_env ex_catalog_empty_sampler) =
     Inl (EmptyDatasetError ''Aggregation dataset <in@m> is empty'')"
proof -
  have ids: "''in@m'' = qualified_id (opt_input ex_options) (MAPSET ex_env)"
    "''smp@m'' = qualified_id (opt_sample ex_options) (MAPSET ex_env)"
    "''out@m'' = qualified_id (opt_output ex_options) (MAPSET ex_env)"
    by (simp_all add: ex_defs)
  have a: "ex_catalog_no_sampler (Strds, ''in@m'') = Some ex_source"
    and b: "ex_catalog_empty_sampler (Strds, ''in@m'') = Some ex_source"
    by (simp_all add: ex_defs)
  from sampler_errors_report_input_id [where cat = ex_catalog_no_sampler, OF ids a]
    sampler_errors_report_input_id [where cat = ex_catalog_empty_sampler, OF ids b]
  show ?thesis
    by (simp add: ex_defs)
qed

end
